theory Spec2Isabelle
  imports Complex_Main "HOL-Library.DAList" "HOL-Library.List_Lexorder"
begin

section \<open>Strings\<close>

text \<open>
  A Python \<open>str\<close> is a sequence of Unicode code points; \<open>len\<close>, slicing and
  \<open>in\<close> count code points. A string is therefore a list of code points (natural
  numbers), and \<open>u\<close> turns an ASCII literal into one. The Chinese message literals of
  \<open>app.py\<close> are written out as code points.
\<close>

type_synonym ustr = "nat list"

definition u :: "string \<Rightarrow> ustr" where
  "u s = map of_char s"

text \<open>\<open>s.startswith(p)\<close>\<close>

definition startswith :: "ustr \<Rightarrow> ustr \<Rightarrow> bool" where
  "startswith s p = (take (length p) s = p)"

text \<open>\<open>sub in s\<close>\<close>

fun contains :: "ustr \<Rightarrow> ustr \<Rightarrow> bool" where
  "contains sub [] = (sub = [])"
| "contains sub (c # cs) = (startswith (c # cs) sub \<or> contains sub cs)"

text \<open>
  \<open>s.replace(old, new)\<close>: every non-overlapping occurrence of \<open>old\<close>, found from the
  left, is replaced. With an empty \<open>old\<close> Python puts \<open>new\<close> before every character
  and at the end.
\<close>

function replace :: "ustr \<Rightarrow> ustr \<Rightarrow> ustr \<Rightarrow> ustr" where
  "replace s old new =
     (if old = [] then new @ concat (map (\<lambda>c. c # new) s)
      else if s = [] then []
      else if startswith s old then new @ replace (drop (length old) s) old new
      else hd s # replace (tl s) old new)"
  by pat_completeness auto
termination
  by (relation "measure (\<lambda>(s, old, new). length s)") auto

declare replace.simps [simp del]

text \<open>\<open>s.split(c)\<close> for a one-character separator; the result is never empty.\<close>

fun split_chr :: "nat \<Rightarrow> ustr \<Rightarrow> ustr list" where
  "split_chr c [] = [[]]"
| "split_chr c (x # xs) =
     (if x = c then [] # split_chr c xs
      else (case split_chr c xs of [] \<Rightarrow> [[x]] | w # ws \<Rightarrow> (x # w) # ws))"

text \<open>\<open>str(n)\<close> for a non-negative integer: its decimal digits.\<close>

fun str_of_nat :: "nat \<Rightarrow> ustr" where
  "str_of_nat n = (if n < 10 then [48 + n] else str_of_nat (n div 10) @ [48 + n mod 10])"

declare str_of_nat.simps [simp del]

text \<open>Python's truth value of an optional string: \<open>None\<close> and \<open>""\<close> are false.\<close>

fun truthy :: "ustr option \<Rightarrow> bool" where
  "truthy None = False"
| "truthy (Some s) = (s \<noteq> [])"


section \<open>Clock\<close>

text \<open>
  One reading of the system clock, as the handlers of one request see it:
  \<open>now\<close> is \<open>datetime.now()\<close> in microseconds since midnight of day one of the
  calendar, \<open>time_us\<close> is \<open>int(time.time() * 1000000)\<close>. All clock reads made
  while one request is handled are taken at the same instant.
\<close>

record clock =
  now :: int
  time_us :: int

definition seconds :: "int \<Rightarrow> int" where
  "seconds n = n * 1000000"

definition two_digits :: "int \<Rightarrow> ustr" where
  "two_digits n = [48 + nat (n div 10), 48 + nat (n mod 10)]"

text \<open>\<open>strftime("%H:%M:%S")\<close> and \<open>strftime("%H%M%S_")\<close>\<close>

definition strftime_HMS :: "int \<Rightarrow> ustr" where
  "strftime_HMS t =
     two_digits ((t div seconds 3600) mod 24) @ u '':'' @
     two_digits ((t div seconds 60) mod 60) @ u '':'' @
     two_digits ((t div seconds 1) mod 60)"

definition strftime_prefix :: "int \<Rightarrow> ustr" where
  "strftime_prefix t =
     two_digits ((t div seconds 3600) mod 24) @
     two_digits ((t div seconds 60) mod 60) @
     two_digits ((t div seconds 1) mod 60) @ u ''_''"


section \<open>\<open>os.path.splitext\<close>\<close>

text \<open>
  \<open>os.path.splitext\<close> is \<open>genericpath._splitext(p, sep, altsep, extsep)\<close> of the
  Python standard library, called by \<open>posixpath\<close> with \<open>('/', None, '.')\<close> and by
  \<open>ntpath\<close> with \<open>('\\', '/', '.')\<close>:
  \<^verbatim>\<open>
  def _splitext(p, sep, altsep, extsep):
      sepIndex = p.rfind(sep)
      if altsep:
          altsepIndex = p.rfind(altsep)
          sepIndex = max(sepIndex, altsepIndex)
      dotIndex = p.rfind(extsep)
      if dotIndex > sepIndex:
          # skip all leading dots
          filenameIndex = sepIndex + 1
          while filenameIndex < dotIndex:
              if p[filenameIndex:filenameIndex+1] != extsep:
                  return p[:dotIndex], p[dotIndex:]
              filenameIndex += 1
      return p, p[:0]
  \<close>
\<close>

datatype platform = Posix | Nt

text \<open>\<open>p.rfind(c)\<close> for a one-character \<open>c\<close>: the highest index of \<open>c\<close>, or \<open>-1\<close>.\<close>

definition rfind :: "ustr \<Rightarrow> nat \<Rightarrow> int" where
  "rfind p c =
     (case filter (\<lambda>i. p ! i = c) (rev [0..<length p]) of
        [] \<Rightarrow> - 1
      | i # _ \<Rightarrow> int i)"

text \<open>The \<open>while\<close> loop: does it return from inside, at a character that is no dot?\<close>

function skip_leading_dots :: "ustr \<Rightarrow> nat \<Rightarrow> int \<Rightarrow> int \<Rightarrow> bool" where
  "skip_leading_dots p extsep filenameIndex dotIndex =
     (if filenameIndex < dotIndex then
        (if take 1 (drop (nat filenameIndex) p) \<noteq> [extsep] then True
         else skip_leading_dots p extsep (filenameIndex + 1) dotIndex)
      else False)"
  by pat_completeness auto
termination
  by (relation "measure (\<lambda>(p, extsep, filenameIndex, dotIndex). nat (dotIndex - filenameIndex))")
     auto

declare skip_leading_dots.simps [simp del]

definition splitext_generic :: "ustr \<Rightarrow> nat \<Rightarrow> nat option \<Rightarrow> nat \<Rightarrow> ustr \<times> ustr" where
  "splitext_generic p sep altsep extsep =
     (let sepIndex = rfind p sep;
          sepIndex = (case altsep of
                        None \<Rightarrow> sepIndex
                      | Some a \<Rightarrow> max sepIndex (rfind p a));
          dotIndex = rfind p extsep
      in if dotIndex > sepIndex \<and> skip_leading_dots p extsep (sepIndex + 1) dotIndex
         then (take (nat dotIndex) p, drop (nat dotIndex) p)
         else (p, []))"

definition splitext :: "platform \<Rightarrow> ustr \<Rightarrow> ustr \<times> ustr" where
  "splitext pf p =
     (case pf of
        Posix \<Rightarrow> splitext_generic p 47 None 46
      | Nt \<Rightarrow> splitext_generic p 92 (Some 47) 46)"


section \<open>Filename masking\<close>

text \<open>
  \<^verbatim>\<open>
  def get_masked_name(filename):
      if not filename: return "***"
      try:
          name, ext = os.path.splitext(filename)
          if len(name) <= 2: return name + "***" + ext
          return name[:2] + "***" + ext
      except:
          return "***" + filename[-4:] if len(filename) > 4 else "***"
  \<close>
  The argument is a \<open>str\<close> (the \<open>filename\<close> of an event). On a \<open>str\<close> neither
  \<open>splitext\<close>, \<open>len\<close>, slicing nor concatenation raises, so the handler of the
  \<open>try\<close> is never entered; the function is total and the handler has no branch here.
\<close>

definition get_masked_name :: "platform \<Rightarrow> ustr \<Rightarrow> ustr" where
  "get_masked_name pf filename =
     (if filename = [] then u ''***''
      else (case splitext pf filename of (name, ext) \<Rightarrow>
        if length name \<le> 2 then name @ u ''***'' @ ext
        else take 2 name @ u ''***'' @ ext))"

section \<open>Data model\<close>

text \<open>
  An entry of \<open>EVENT_LOG\<close>: the dictionary that \<open>add_event\<close> builds. All six keys
  are always there; \<open>ip\<close> and \<open>filename\<close> may hold \<open>None\<close>.
\<close>

record event =
  ev_id :: int
  ev_time :: ustr
  ev_type :: ustr
  ev_msg :: ustr
  ev_ip :: "ustr option"
  ev_filename :: "ustr option"

text \<open>
  A value of \<open>ACTIVE_PEERS\<close>:
  \<open>{'last_seen': .., 'action': .., 'action_time': .., 'device_type': ..}\<close>.
\<close>

record peer =
  last_seen :: int
  peer_action :: ustr
  action_time :: int
  peer_device_type :: ustr

text \<open>
  The module's globals. \<open>ACTIVE_PEERS\<close> is a \<open>dict\<close>: keys are distinct and
  iteration follows insertion order, which is what an association list with distinct
  keys gives (\<open>DAList.update\<close> keeps the place of a key that is there and appends a
  new one). \<open>LAST_ONLINE_IPS\<close> is a \<open>set\<close>.
\<close>

record state =
  locked :: bool
  file_pool :: bool
  current_port :: nat
  ACTIVE_PEERS :: "(ustr, peer) alist"
  EVENT_LOG :: "event list"
  LAST_ONLINE_IPS :: "ustr set"

definition initial_state :: "nat \<Rightarrow> state" where
  "initial_state port =
     \<lparr>locked = False, file_pool = False, current_port = port,
      ACTIVE_PEERS = DAList.empty, EVENT_LOG = [], LAST_ONLINE_IPS = {}\<rparr>"

text \<open>
  What the handlers read of Flask's \<open>request\<close>. \<open>user_agent\<close> holds
  \<open>str(request.user_agent).lower()\<close>: Unicode case mapping is done by the Python
  runtime and is an input here. \<open>endpoint\<close> is \<open>None\<close> when no route matches.
\<close>

record request =
  remote_addr :: ustr
  endpoint :: "ustr option"
  path :: ustr
  user_agent :: ustr

definition MAX_EVENTS :: nat where
  "MAX_EVENTS = 50"

definition PEER_TIMEOUT :: int where
  "PEER_TIMEOUT = 8"


section \<open>Event log\<close>

text \<open>
  \<^verbatim>\<open>
  EVENT_LOG = collections.deque(maxlen=MAX_EVENTS)

  def add_event(type, msg, ip=None, filename=None):
      EVENT_LOG.appendleft({
          'id': int(time.time() * 1000000),
          'time': datetime.now().strftime("%H:%M:%S"),
          'type': type, 'msg': msg, 'ip': ip, 'filename': filename
      })
  \<close>
  \<open>deque.appendleft\<close> on a deque with \<open>maxlen\<close> puts the item at the left end and,
  if the deque is then longer than \<open>maxlen\<close>, pops one item from the right end.
\<close>

definition appendleft :: "nat \<Rightarrow> 'a \<Rightarrow> 'a list \<Rightarrow> 'a list" where
  "appendleft maxlen x d =
     (let d' = x # d in if maxlen < length d' then butlast d' else d')"

definition mk_event :: "clock \<Rightarrow> ustr \<Rightarrow> ustr \<Rightarrow> ustr option \<Rightarrow> ustr option \<Rightarrow> event" where
  "mk_event clk ty m ip filename =
     \<lparr>ev_id = time_us clk, ev_time = strftime_HMS (now clk),
      ev_type = ty, ev_msg = m, ev_ip = ip, ev_filename = filename\<rparr>"

definition add_event ::
  "clock \<Rightarrow> ustr \<Rightarrow> ustr \<Rightarrow> ustr option \<Rightarrow> ustr option \<Rightarrow> state \<Rightarrow> state" where
  "add_event clk ty m ip filename st =
     st\<lparr>EVENT_LOG := appendleft MAX_EVENTS (mk_event clk ty m ip filename) (EVENT_LOG st)\<rparr>"

text \<open>A sequence of calls of \<open>add_event\<close>, each with its clock reading and arguments.\<close>

record record_op =
  op_clock :: clock
  op_type :: ustr
  op_msg :: ustr
  op_ip :: "ustr option"
  op_filename :: "ustr option"

definition event_of :: "record_op \<Rightarrow> event" where
  "event_of r = mk_event (op_clock r) (op_type r) (op_msg r) (op_ip r) (op_filename r)"

definition record_op_apply :: "state \<Rightarrow> record_op \<Rightarrow> state" where
  "record_op_apply st r =
     add_event (op_clock r) (op_type r) (op_msg r) (op_ip r) (op_filename r) st"

definition record_all :: "record_op list \<Rightarrow> state \<Rightarrow> state" where
  "record_all ops st = foldl record_op_apply st ops"


section \<open>Privacy filter of the status response\<close>

text \<open>
  \<^verbatim>\<open>
  should_mask = (not is_admin) and (not SERVER_STATE['file_pool'])
  for event in raw_events:
      evt_copy = event.copy()
      if should_mask and event['ip'] != sender_ip and event.get('filename'):
          original_name = event['filename']
          masked_name = get_masked_name(original_name)
          evt_copy['msg'] = evt_copy['msg'].replace(original_name, masked_name)
          if 'filename' in evt_copy: del evt_copy['filename']
      client_safe_events.append(evt_copy)
  \<close>
  The copy can lose its \<open>filename\<close> key, so in a copy that field is optional:
  \<open>None\<close> is the key deleted, \<open>Some None\<close> the key holding \<open>None\<close>.
\<close>

record event_view =
  v_id :: int
  v_time :: ustr
  v_type :: ustr
  v_msg :: ustr
  v_ip :: "ustr option"
  v_filename :: "ustr option option"

definition event_copy :: "event \<Rightarrow> event_view" where
  "event_copy event =
     \<lparr>v_id = ev_id event, v_time = ev_time event, v_type = ev_type event,
      v_msg = ev_msg event, v_ip = ev_ip event, v_filename = Some (ev_filename event)\<rparr>"

definition client_safe_event :: "platform \<Rightarrow> bool \<Rightarrow> ustr \<Rightarrow> event \<Rightarrow> event_view" where
  "client_safe_event pf should_mask sender_ip event =
     (let evt_copy = event_copy event in
      if should_mask \<and> ev_ip event \<noteq> Some sender_ip \<and> truthy (ev_filename event) then
        (case ev_filename event of
           None \<Rightarrow> evt_copy
         | Some original_name \<Rightarrow>
             let masked_name = get_masked_name pf original_name in
             evt_copy\<lparr>v_msg := replace (v_msg evt_copy) original_name masked_name,
                      v_filename := None\<rparr>)
      else evt_copy)"

section \<open>Peer registry\<close>

text \<open>
  \<^verbatim>\<open>
  def is_local_admin():
      sender_ip = request.remote_addr
      return sender_ip == '127.0.0.1' or sender_ip == 'localhost'

  def get_device_type(user_agent):
      ua = str(user_agent).lower()
      if 'android' in ua or 'iphone' in ua or 'ipad' in ua or 'mobile' in ua:
          return 'mobile'
      return 'desktop'
  \<close>
\<close>

definition is_local_admin :: "request \<Rightarrow> bool" where
  "is_local_admin req =
     (let sender_ip = remote_addr req in
      sender_ip = u ''127.0.0.1'' \<or> sender_ip = u ''localhost'')"

definition get_device_type :: "ustr \<Rightarrow> ustr" where
  "get_device_type ua =
     (if contains (u ''android'') ua \<or> contains (u ''iphone'') ua \<or>
         contains (u ''ipad'') ua \<or> contains (u ''mobile'') ua
      then u ''mobile'' else u ''desktop'')"

text \<open>
  \<^verbatim>\<open>
  def record_activity(ip, action=None, device_type=None):
      now = datetime.now()
      if not device_type: device_type = get_device_type(request.user_agent)
      if ip not in ACTIVE_PEERS:
          ACTIVE_PEERS[ip] = {'last_seen': now, 'action': 'idle',
                              'action_time': now, 'device_type': device_type}
      else:
          ACTIVE_PEERS[ip]['last_seen'] = now
          if action:
              ACTIVE_PEERS[ip]['action'] = action
              ACTIVE_PEERS[ip]['action_time'] = now + timedelta(seconds=3)
          if device_type: ACTIVE_PEERS[ip]['device_type'] = device_type
  \<close>
\<close>

text \<open>The line \<open>if not device_type: device_type = get_device_type(request.user_agent)\<close>\<close>

definition device_of :: "request \<Rightarrow> ustr option \<Rightarrow> ustr" where
  "device_of req device_type =
     (case device_type of
        None \<Rightarrow> get_device_type (user_agent req)
      | Some d \<Rightarrow> if d = [] then get_device_type (user_agent req) else d)"

definition record_activity ::
  "clock \<Rightarrow> request \<Rightarrow> ustr \<Rightarrow> ustr option \<Rightarrow> ustr option \<Rightarrow> state \<Rightarrow> state" where
  "record_activity clk req ip action device_type st =
     (let t = now clk;
          dt = device_of req device_type
      in case DAList.lookup (ACTIVE_PEERS st) ip of
           None \<Rightarrow>
             st\<lparr>ACTIVE_PEERS :=
                  DAList.update ip
                    \<lparr>last_seen = t, peer_action = u ''idle'', action_time = t,
                     peer_device_type = dt\<rparr>
                    (ACTIVE_PEERS st)\<rparr>
         | Some p \<Rightarrow>
             let p1 = p\<lparr>last_seen := t\<rparr>;
                 p2 = (case action of
                         None \<Rightarrow> p1
                       | Some a \<Rightarrow>
                           if a = [] then p1
                           else p1\<lparr>peer_action := a, action_time := t + seconds 3\<rparr>);
                 p3 = (if dt \<noteq> [] then p2\<lparr>peer_device_type := dt\<rparr> else p2)
             in st\<lparr>ACTIVE_PEERS := DAList.update ip p3 (ACTIVE_PEERS st)\<rparr>)"


section \<open>Liveness sweep\<close>

text \<open>
  \<^verbatim>\<open>
  def check_peers_lifecycle():
      global LAST_ONLINE_IPS
      now = datetime.now()
      to_remove = []
      current_ips = set()
      for ip, data in ACTIVE_PEERS.items():
          if data['action'] != 'idle' and now > data['action_time']: data['action'] = 'idle'
          if now - data['last_seen'] > timedelta(seconds=PEER_TIMEOUT): to_remove.append(ip)
          else: current_ips.add(ip)
      for ip in to_remove:
          del ACTIVE_PEERS[ip]
          add_event('leave', <offline>, ip)
      new_ips = current_ips - LAST_ONLINE_IPS
      for ip in new_ips:
          if ip != '127.0.0.1': add_event('join', <joined>, ip)
      LAST_ONLINE_IPS = current_ips
  \<close>
  The first loop goes through the items of the dictionary and writes to the value of the
  item it is at. The order in which Python goes through the set \<open>new_ips\<close> is not
  fixed by the language; it is the argument \<open>set_iter\<close>.
\<close>

definition msg_offline :: ustr where
  "msg_offline = [24050, 31163, 32447]"

definition msg_joined :: ustr where
  "msg_joined = [21152, 20837, 32593, 32476]"

definition sweep_item ::
  "int \<Rightarrow> (ustr, peer) alist \<times> ustr list \<times> ustr set \<Rightarrow> ustr \<times> peer \<Rightarrow>
   (ustr, peer) alist \<times> ustr list \<times> ustr set" where
  "sweep_item t acc item =
     (case acc of (peers, to_remove, current_ips) \<Rightarrow>
      case item of (ip, data) \<Rightarrow>
        let data' = (if peer_action data \<noteq> u ''idle'' \<and> t > action_time data
                     then data\<lparr>peer_action := u ''idle''\<rparr> else data);
            peers' = DAList.update ip data' peers
        in if t - last_seen data' > seconds PEER_TIMEOUT
           then (peers', to_remove @ [ip], current_ips)
           else (peers', to_remove, insert ip current_ips))"

definition remove_peer :: "clock \<Rightarrow> state \<Rightarrow> ustr \<Rightarrow> state" where
  "remove_peer clk st ip =
     add_event clk (u ''leave'') msg_offline (Some ip) None
       (st\<lparr>ACTIVE_PEERS := DAList.delete ip (ACTIVE_PEERS st)\<rparr>)"

definition announce_peer :: "clock \<Rightarrow> state \<Rightarrow> ustr \<Rightarrow> state" where
  "announce_peer clk st ip =
     (if ip \<noteq> u ''127.0.0.1'' then add_event clk (u ''join'') msg_joined (Some ip) None st
      else st)"

definition check_peers_lifecycle :: "(ustr set \<Rightarrow> ustr list) \<Rightarrow> clock \<Rightarrow> state \<Rightarrow> state" where
  "check_peers_lifecycle set_iter clk st =
     (case foldl (sweep_item (now clk)) (ACTIVE_PEERS st, [], {})
             (DAList.impl_of (ACTIVE_PEERS st)) of
        (peers, to_remove, current_ips) \<Rightarrow>
          let st1 = foldl (remove_peer clk) (st\<lparr>ACTIVE_PEERS := peers\<rparr>) to_remove;
              new_ips = current_ips - LAST_ONLINE_IPS st1;
              st2 = foldl (announce_peer clk) st1 (set_iter new_ips)
          in st2\<lparr>LAST_ONLINE_IPS := current_ips\<rparr>)"

text \<open>The calls of \<open>add_event\<close> that one sweep makes, in the order it makes them.\<close>

definition stale_ips :: "int \<Rightarrow> (ustr \<times> peer) list \<Rightarrow> ustr list" where
  "stale_ips t items = map fst (filter (\<lambda>item. t - last_seen (snd item) > seconds PEER_TIMEOUT) items)"

definition live_ips :: "int \<Rightarrow> (ustr \<times> peer) list \<Rightarrow> ustr list" where
  "live_ips t items = map fst (filter (\<lambda>item. \<not> t - last_seen (snd item) > seconds PEER_TIMEOUT) items)"

definition leave_op :: "clock \<Rightarrow> ustr \<Rightarrow> record_op" where
  "leave_op clk ip =
     \<lparr>op_clock = clk, op_type = u ''leave'', op_msg = msg_offline, op_ip = Some ip,
      op_filename = None\<rparr>"

definition join_op :: "clock \<Rightarrow> ustr \<Rightarrow> record_op" where
  "join_op clk ip =
     \<lparr>op_clock = clk, op_type = u ''join'', op_msg = msg_joined, op_ip = Some ip,
      op_filename = None\<rparr>"

definition sweep_calls :: "(ustr set \<Rightarrow> ustr list) \<Rightarrow> clock \<Rightarrow> state \<Rightarrow> record_op list" where
  "sweep_calls set_iter clk st =
     (let items = DAList.impl_of (ACTIVE_PEERS st) in
      map (leave_op clk) (stale_ips (now clk) items) @
      map (join_op clk)
        (filter (\<lambda>ip. ip \<noteq> u ''127.0.0.1'')
           (set_iter (set (live_ips (now clk) items) - LAST_ONLINE_IPS st))))"


section \<open>Authorization gate\<close>

text \<open>
  \<^verbatim>\<open>
  @app.before_request
  def global_intercept():
      if SERVER_STATE['locked'] and not is_local_admin():
          if request.endpoint != 'static': abort(403, description="Maintenance Mode")
      sender_ip = request.remote_addr
      if sender_ip != '127.0.0.1' and sender_ip != 'localhost':
          if request.path.startswith('/api/') or request.path.startswith('/upload') \
             or request.path.startswith('/download'):
              record_activity(sender_ip)
  \<close>
  \<open>abort\<close> raises: the function ends there with the error (\<open>Inl\<close>).
\<close>

datatype http_error = HTTPException nat ustr

definition global_intercept :: "clock \<Rightarrow> request \<Rightarrow> state \<Rightarrow> http_error + state" where
  "global_intercept clk req st =
     (if locked st \<and> \<not> is_local_admin req \<and> endpoint req \<noteq> Some (u ''static'')
      then Inl (HTTPException 403 (u ''Maintenance Mode''))
      else
        let sender_ip = remote_addr req in
        if sender_ip \<noteq> u ''127.0.0.1'' \<and> sender_ip \<noteq> u ''localhost'' \<and>
           (startswith (path req) (u ''/api/'') \<or> startswith (path req) (u ''/upload'') \<or>
            startswith (path req) (u ''/download''))
        then Inr (record_activity clk req sender_ip None None st)
        else Inr st)"

section \<open>Responses\<close>

text \<open>
  What a request is answered with: an HTTP error (from \<open>abort\<close>, or status 500 from
  an exception that no handler catches), or the payload of the route.
\<close>

type_synonym content = "nat list"

type_synonym oserror = ustr

record topology_entry =
  t_ip :: ustr
  t_status :: ustr
  t_type :: ustr
  t_device_type :: ustr

record status_payload =
  sp_locked :: bool
  sp_file_pool :: bool
  sp_ips :: "ustr list"
  sp_port :: nat
  sp_topology :: "topology_entry list"
  sp_events :: "event_view list"

text \<open>The three shapes of file entries that \<open>list_received_files\<close> builds.\<close>

record server_entry =
  se_name :: ustr
  se_size :: nat
  se_path_key :: ustr

record peer_entry =
  pe_name :: ustr
  pe_size :: nat
  pe_path_key :: ustr
  pe_upload_time :: rat

record own_entry =
  oe_name :: ustr
  oe_size :: nat
  oe_upload_time :: rat

datatype file_group = Server_files "server_entry list" | Peer_files "peer_entry list"

datatype response =
    Error http_error
  | Json_error ustr nat
  | Status status_payload
  | Received_all ustr "(ustr, file_group) alist" ustr bool
  | Received_own "own_entry list"
  | Success
  | Attachment content
  | Uploaded nat

definition internal_server_error :: response where
  "internal_server_error = Error (HTTPException 500 (u ''Internal Server Error''))"

definition not_found :: response where
  "not_found = Error (HTTPException 404 (u ''Not Found''))"


section \<open>Request dispatch\<close>

text \<open>
  Flask runs the \<open>before_request\<close> functions first and calls the view function of the
  route only if none of them raised; an \<open>HTTPException\<close> raised there is the response.
  The view function is an argument: it is the handler that the route of the request
  names, with the request's own data already given to it.
\<close>

definition full_dispatch_request ::
  "clock \<Rightarrow> request \<Rightarrow> (state \<Rightarrow> 'fs \<Rightarrow> response \<times> state \<times> 'fs) \<Rightarrow>
   state \<Rightarrow> 'fs \<Rightarrow> response \<times> state \<times> 'fs" where
  "full_dispatch_request clk req view_function st fs =
     (case global_intercept clk req st of
        Inl e \<Rightarrow> (Error e, st, fs)
      | Inr st' \<Rightarrow> view_function st' fs)"


section \<open>Status route\<close>

text \<open>
  \<^verbatim>\<open>
  @app.route('/api/status', methods=['GET'])
  def api_status():
      check_peers_lifecycle()
      sender_ip = request.remote_addr
      is_admin = is_local_admin()
      topology = []
      if SERVER_STATE['file_pool']: topology.append({'ip': 'Server', 'status': 'idle',
                                         'type': 'server', 'device_type': 'desktop'})
      for ip, data in ACTIVE_PEERS.items():
          topology.append({'ip': ip, 'status': data['action'], 'type': 'client',
                           'device_type': data.get('device_type', 'desktop')})
      raw_events = list(EVENT_LOG)
      client_safe_events = []
      should_mask = (not is_admin) and (not SERVER_STATE['file_pool'])
      for event in raw_events: ...
      return jsonify({'locked': .., 'file_pool': .., 'ips': get_local_ips(), 'port': ..,
                      'topology': topology, 'events': client_safe_events})
  \<close>
  \<open>get_local_ips()\<close> asks the network stack; its answer is the argument \<open>ips\<close>.
\<close>

definition topology_of :: "ustr \<times> peer \<Rightarrow> topology_entry" where
  "topology_of item =
     (case item of (ip, data) \<Rightarrow>
        \<lparr>t_ip = ip, t_status = peer_action data, t_type = u ''client'',
         t_device_type = peer_device_type data\<rparr>)"

definition api_status ::
  "platform \<Rightarrow> (ustr set \<Rightarrow> ustr list) \<Rightarrow> ustr list \<Rightarrow> clock \<Rightarrow> request \<Rightarrow> state \<Rightarrow>
   response \<times> state" where
  "api_status pf set_iter ips clk req st =
     (let st1 = check_peers_lifecycle set_iter clk st;
          sender_ip = remote_addr req;
          is_admin = is_local_admin req;
          topology =
            (if file_pool st1
             then [\<lparr>t_ip = u ''Server'', t_status = u ''idle'', t_type = u ''server'',
                    t_device_type = u ''desktop''\<rparr>]
             else []) @
            map topology_of (DAList.impl_of (ACTIVE_PEERS st1));
          raw_events = EVENT_LOG st1;
          should_mask = (\<not> is_admin \<and> \<not> file_pool st1);
          client_safe_events = map (client_safe_event pf should_mask sender_ip) raw_events
      in (Status \<lparr>sp_locked = locked st1, sp_file_pool = file_pool st1, sp_ips = ips,
                  sp_port = current_port st1, sp_topology = topology,
                  sp_events = client_safe_events\<rparr>,
          st1))"

section \<open>Filesystem interface\<close>

text \<open>
  The handlers reach the filesystem through \<open>os\<close>, \<open>os.path\<close>, \<open>FileStorage.save\<close>
  and Flask's \<open>send_from_directory\<close>. The filesystem is a state of any type \<open>'fs\<close>
  and these calls are the fields of an interface, so that what is proved of a handler
  holds whatever the filesystem answers. A call that raises \<open>OSError\<close> returns
  \<open>Inl\<close> with the text of the error and has no effect; \<open>exists\<close>, \<open>isfile\<close> and
  \<open>isdir\<close> do not raise. \<open>send_from_directory\<close> raises \<open>NotFound\<close> (\<open>None\<close>)
  or answers with the file's content.
\<close>

record 'fs os_iface =
  os_join :: "ustr \<Rightarrow> ustr \<Rightarrow> ustr"
  os_basename :: "ustr \<Rightarrow> ustr"
  os_dirname :: "ustr \<Rightarrow> ustr"
  os_exists :: "'fs \<Rightarrow> ustr \<Rightarrow> bool"
  os_isfile :: "'fs \<Rightarrow> ustr \<Rightarrow> bool"
  os_isdir :: "'fs \<Rightarrow> ustr \<Rightarrow> bool"
  os_getsize :: "'fs \<Rightarrow> ustr \<Rightarrow> oserror + nat"
  os_getmtime :: "'fs \<Rightarrow> ustr \<Rightarrow> oserror + rat"
  os_listdir :: "'fs \<Rightarrow> ustr \<Rightarrow> oserror + ustr list"
  os_makedirs :: "'fs \<Rightarrow> ustr \<Rightarrow> oserror + 'fs"
  os_remove :: "'fs \<Rightarrow> ustr \<Rightarrow> oserror + 'fs"
  os_rmdir :: "'fs \<Rightarrow> ustr \<Rightarrow> oserror + 'fs"
  file_save :: "'fs \<Rightarrow> ustr \<Rightarrow> content \<Rightarrow> oserror + 'fs"
  flask_send :: "'fs \<Rightarrow> ustr \<Rightarrow> ustr \<Rightarrow> content option"

text \<open>\<open>RELEASE_DIR = CONFIG['release_dir']\<close>, \<open>RECEIVED_DIR = CONFIG['received_dir']\<close>\<close>

record config =
  RELEASE_DIR :: ustr
  RECEIVED_DIR :: ustr

definition DEFAULT_CONFIG :: config where
  "DEFAULT_CONFIG = \<lparr>RELEASE_DIR = u ''release'', RECEIVED_DIR = u ''received''\<rparr>"

definition send_from_directory :: "'fs os_iface \<Rightarrow> 'fs \<Rightarrow> ustr \<Rightarrow> ustr \<Rightarrow> response" where
  "send_from_directory os fs directory name =
     (case flask_send os fs directory name of
        None \<Rightarrow> not_found
      | Some c \<Rightarrow> Attachment c)"

text \<open>\<open>s.split(c, 1)\<close>: split at the first \<open>c\<close> only.\<close>

definition split_once :: "nat \<Rightarrow> ustr \<Rightarrow> ustr list" where
  "split_once c s =
     (if c \<in> set s then [takeWhile (\<lambda>x. x \<noteq> c) s, tl (dropWhile (\<lambda>x. x \<noteq> c) s)]
      else [s])"


section \<open>Download route\<close>

text \<open>
  \<^verbatim>\<open>
  @app.route('/download/<path:filename>')
  def download_file(filename):
      if '..' in filename or filename.startswith('/'): abort(404)
      sender_ip = request.remote_addr
      if sender_ip != '127.0.0.1': record_activity(sender_ip, 'download')
      display_name = filename.split('/')[-1]
      add_event('download', f'<downloaded> {display_name}',
                sender_ip if sender_ip != '127.0.0.1' else 'Server', filename=display_name)
      if filename.startswith('__release__/'):
          return send_from_directory(RELEASE_DIR, filename.replace('__release__/', ''), ..)
      if os.path.exists(os.path.join(RELEASE_DIR, filename)):
          return send_from_directory(RELEASE_DIR, filename, as_attachment=True)
      if is_local_admin() or SERVER_STATE['file_pool']:
          parts = filename.split('/', 1)
          if len(parts) == 2:
              target_dir = os.path.join(RECEIVED_DIR, parts[0])
              if os.path.exists(target_dir):
                  return send_from_directory(target_dir, parts[1], as_attachment=True)
      abort(404)
  \<close>
\<close>

definition msg_downloaded :: ustr where
  "msg_downloaded = [19979, 36733, 20102, 32]"

definition download_file ::
  "config \<Rightarrow> 'fs os_iface \<Rightarrow> clock \<Rightarrow> request \<Rightarrow> ustr \<Rightarrow> state \<Rightarrow> 'fs \<Rightarrow>
   response \<times> state \<times> 'fs" where
  "download_file cfg os clk req filename st fs =
     (if contains (u ''..'') filename \<or> startswith filename (u ''/'') then (not_found, st, fs)
      else
        let sender_ip = remote_addr req;
            st1 = (if sender_ip \<noteq> u ''127.0.0.1''
                   then record_activity clk req sender_ip (Some (u ''download'')) None st
                   else st);
            display_name = last (split_chr 47 filename);
            st2 = add_event clk (u ''download'') (msg_downloaded @ display_name)
                    (Some (if sender_ip \<noteq> u ''127.0.0.1'' then sender_ip else u ''Server''))
                    (Some display_name) st1
        in if startswith filename (u ''__release__/'') then
             (send_from_directory os fs (RELEASE_DIR cfg)
                (replace filename (u ''__release__/'') []), st2, fs)
           else if os_exists os fs (os_join os (RELEASE_DIR cfg) filename) then
             (send_from_directory os fs (RELEASE_DIR cfg) filename, st2, fs)
           else if is_local_admin req \<or> file_pool st2 then
             (case split_once 47 filename of
                [part0, part1] \<Rightarrow>
                  let target_dir = os_join os (RECEIVED_DIR cfg) part0 in
                  if os_exists os fs target_dir
                  then (send_from_directory os fs target_dir part1, st2, fs)
                  else (not_found, st2, fs)
              | _ \<Rightarrow> (not_found, st2, fs))
           else (not_found, st2, fs))"


section \<open>Delete route\<close>

text \<open>
  \<^verbatim>\<open>
  @app.route('/api/file/delete', methods=['POST'])
  def delete_file():
      if not is_local_admin(): return jsonify({'error': 'Permission denied'}), 403
      data = request.json
      target_type, target_path = data.get('type'), data.get('path')
      full_path, file_name_only = None, \
          os.path.basename(target_path) if target_path else <unknown file>
      if target_type == 'release' or (target_path and target_path.startswith('__release__/')):
          clean_name = target_path.replace('__release__/', '') if target_path else ''
          full_path = os.path.join(RELEASE_DIR, clean_name)
          file_name_only = clean_name
      elif target_type == 'received':
          full_path = os.path.join(RECEIVED_DIR, target_path)
      if full_path and os.path.exists(full_path):
          try:
              os.remove(full_path)
              if target_type == 'received':
                  parent = os.path.dirname(full_path)
                  if not os.listdir(parent): os.rmdir(parent)
              add_event('delete', f'<deleted> {file_name_only}', 'Server',
                        filename=file_name_only)
              return jsonify({'success': True})
          except Exception as e: return jsonify({'error': str(e)}), 500
      return jsonify({'error': 'File not found'}), 404
  \<close>
  \<open>type\<close> and \<open>path\<close> of the JSON body are strings or missing (\<open>None\<close>).
  \<open>os.path.join(RECEIVED_DIR, None)\<close> raises \<open>TypeError\<close>, which nothing catches.
\<close>

definition msg_deleted :: ustr where
  "msg_deleted = [21024, 38500, 20102, 32]"

definition msg_unknown_file :: ustr where
  "msg_unknown_file = [26410, 30693, 25991, 20214]"

text \<open>The paths worked out before the \<open>try\<close>: \<open>None\<close> is the \<open>TypeError\<close>.\<close>

definition delete_target ::
  "config \<Rightarrow> 'fs os_iface \<Rightarrow> ustr option \<Rightarrow> ustr option \<Rightarrow> (ustr option \<times> ustr) option" where
  "delete_target cfg os target_type target_path =
     (let file_name_only =
            (case target_path of
               None \<Rightarrow> msg_unknown_file
             | Some p \<Rightarrow> if p = [] then msg_unknown_file else os_basename os p)
      in if target_type = Some (u ''release'') \<or>
            (case target_path of
               None \<Rightarrow> False
             | Some p \<Rightarrow> p \<noteq> [] \<and> startswith p (u ''__release__/''))
         then
           let clean_name =
                 (case target_path of
                    None \<Rightarrow> []
                  | Some p \<Rightarrow> if p = [] then [] else replace p (u ''__release__/'') [])
           in Some (Some (os_join os (RELEASE_DIR cfg) clean_name), clean_name)
         else if target_type = Some (u ''received'') then
           (case target_path of
              None \<Rightarrow> None
            | Some p \<Rightarrow> Some (Some (os_join os (RECEIVED_DIR cfg) p), file_name_only))
         else Some (None, file_name_only))"

text \<open>The calls inside the \<open>try\<close> before \<open>add_event\<close>.\<close>

definition remove_and_tidy ::
  "'fs os_iface \<Rightarrow> ustr option \<Rightarrow> ustr \<Rightarrow> 'fs \<Rightarrow> (oserror \<times> 'fs) + 'fs" where
  "remove_and_tidy os target_type full_path fs =
     (case os_remove os fs full_path of
        Inl e \<Rightarrow> Inl (e, fs)
      | Inr fs1 \<Rightarrow>
          if target_type = Some (u ''received'') then
            let parent = os_dirname os full_path in
            (case os_listdir os fs1 parent of
               Inl e \<Rightarrow> Inl (e, fs1)
             | Inr names \<Rightarrow>
                 if names = [] then
                   (case os_rmdir os fs1 parent of
                      Inl e \<Rightarrow> Inl (e, fs1)
                    | Inr fs2 \<Rightarrow> Inr fs2)
                 else Inr fs1)
          else Inr fs1)"

definition delete_file ::
  "config \<Rightarrow> 'fs os_iface \<Rightarrow> clock \<Rightarrow> request \<Rightarrow> ustr option \<Rightarrow> ustr option \<Rightarrow>
   state \<Rightarrow> 'fs \<Rightarrow> response \<times> state \<times> 'fs" where
  "delete_file cfg os clk req target_type target_path st fs =
     (if \<not> is_local_admin req then (Json_error (u ''Permission denied'') 403, st, fs)
      else
        case delete_target cfg os target_type target_path of
          None \<Rightarrow> (internal_server_error, st, fs)
        | Some (full_path, file_name_only) \<Rightarrow>
            (case full_path of
               None \<Rightarrow> (Json_error (u ''File not found'') 404, st, fs)
             | Some fp \<Rightarrow>
                 if fp \<noteq> [] \<and> os_exists os fs fp then
                   (case remove_and_tidy os target_type fp fs of
                      Inl (e, fs') \<Rightarrow> (Json_error e 500, st, fs')
                    | Inr fs' \<Rightarrow>
                        (Success,
                         add_event clk (u ''delete'') (msg_deleted @ file_name_only)
                           (Some (u ''Server'')) (Some file_name_only) st,
                         fs'))
                 else (Json_error (u ''File not found'') 404, st, fs)))"

section \<open>Upload route\<close>

text \<open>
  \<^verbatim>\<open>
  @app.route('/upload', methods=['POST'])
  def upload_file():
      uploaded_files = request.files.getlist("files")
      sender_ip, is_admin = request.remote_addr, is_local_admin()
      if not is_admin: record_activity(sender_ip, 'upload')
      save_dir = RELEASE_DIR if is_admin else os.path.join(RECEIVED_DIR, sender_ip)
      if not os.path.exists(save_dir): os.makedirs(save_dir)
      saved_count, last_file = 0, ""
      for file in uploaded_files:
          if file.filename:
              filename = file.filename
              file_path = os.path.join(save_dir, filename)
              if os.path.exists(file_path):
                  file_path = os.path.join(save_dir,
                                           datetime.now().strftime("%H%M%S_") + filename)
              file.save(file_path)
              saved_count += 1
              last_file = filename
      if saved_count > 0:
          msg = f'<uploaded> {saved_count} <files>'
          recorded_filename = last_file if saved_count == 1 else None
          if saved_count == 1: msg = f'<uploaded> {last_file}'
          add_event('upload', msg, sender_ip if not is_admin else 'Server',
                    filename=recorded_filename)
      return jsonify({'message': f'<uploaded successfully> {saved_count} <files>'})
  \<close>
  An uploaded file is its \<open>filename\<close> (a string or \<open>None\<close>) and its content. An
  \<open>OSError\<close> of \<open>makedirs\<close> or \<open>save\<close> is caught by nothing: the request is
  answered with status 500, and what was done before stays done.
\<close>

definition msg_uploaded :: ustr where
  "msg_uploaded = [19978, 20256, 20102, 32]"

definition msg_files :: ustr where
  "msg_files = [32, 20010, 25991, 20214]"

fun save_files ::
  "'fs os_iface \<Rightarrow> clock \<Rightarrow> ustr \<Rightarrow> (ustr option \<times> content) list \<Rightarrow> 'fs \<Rightarrow> nat \<Rightarrow> ustr \<Rightarrow>
   (oserror \<times> 'fs) + ('fs \<times> nat \<times> ustr)" where
  "save_files os clk save_dir [] fs saved_count last_file = Inr (fs, saved_count, last_file)"
| "save_files os clk save_dir (file # files) fs saved_count last_file =
     (case fst file of
        None \<Rightarrow> save_files os clk save_dir files fs saved_count last_file
      | Some filename \<Rightarrow>
          if filename = [] then save_files os clk save_dir files fs saved_count last_file
          else
            let file_path = os_join os save_dir filename;
                file_path' = (if os_exists os fs file_path
                              then os_join os save_dir (strftime_prefix (now clk) @ filename)
                              else file_path)
            in (case file_save os fs file_path' (snd file) of
                  Inl e \<Rightarrow> Inl (e, fs)
                | Inr fs' \<Rightarrow> save_files os clk save_dir files fs' (saved_count + 1) filename))"

definition upload_event :: "clock \<Rightarrow> request \<Rightarrow> nat \<Rightarrow> ustr \<Rightarrow> state \<Rightarrow> state" where
  "upload_event clk req saved_count last_file st =
     (if saved_count > 0 then
        let m = msg_uploaded @ str_of_nat saved_count @ msg_files;
            recorded_filename = (if saved_count = 1 then Some last_file else None);
            m' = (if saved_count = 1 then msg_uploaded @ last_file else m)
        in add_event clk (u ''upload'') m'
             (Some (if \<not> is_local_admin req then remote_addr req else u ''Server''))
             recorded_filename st
      else st)"


definition upload_file ::
  "config \<Rightarrow> 'fs os_iface \<Rightarrow> clock \<Rightarrow> request \<Rightarrow> (ustr option \<times> content) list \<Rightarrow>
   state \<Rightarrow> 'fs \<Rightarrow> response \<times> state \<times> 'fs" where
  "upload_file cfg os clk req uploaded_files st fs =
     (let sender_ip = remote_addr req;
          is_admin = is_local_admin req;
          st1 = (if \<not> is_admin
                 then record_activity clk req sender_ip (Some (u ''upload'')) None st
                 else st);
          save_dir = (if is_admin then RELEASE_DIR cfg
                      else os_join os (RECEIVED_DIR cfg) sender_ip)
      in case (if \<not> os_exists os fs save_dir then os_makedirs os fs save_dir else Inr fs) of
           Inl e \<Rightarrow> (internal_server_error, st1, fs)
         | Inr fs1 \<Rightarrow>
             (case save_files os clk save_dir uploaded_files fs1 0 [] of
                Inl (e, fs2) \<Rightarrow> (internal_server_error, st1, fs2)
              | Inr (fs2, saved_count, last_file) \<Rightarrow>
                  (Uploaded saved_count, upload_event clk req saved_count last_file st1, fs2)))"


section \<open>Listing of received files\<close>

text \<open>
  \<^verbatim>\<open>
  @app.route('/api/files/received', methods=['GET'])
  def list_received_files():
      sender_ip = request.remote_addr
      is_admin = is_local_admin()
      file_pool_active = SERVER_STATE['file_pool']
      if is_admin or file_pool_active:
          structure = {}
          if file_pool_active:
              structure['Server'] = []
              if os.path.exists(RELEASE_DIR):
                  for f in os.listdir(RELEASE_DIR):
                      p = os.path.join(RELEASE_DIR, f)
                      if os.path.isfile(p): structure['Server'].append(
                          {'name': f, 'size': os.path.getsize(p),
                           'path_key': f"__release__/{f}", 'is_server_file': True})
          if os.path.exists(RECEIVED_DIR):
              for ip_folder in os.listdir(RECEIVED_DIR):
                  ip_path = os.path.join(RECEIVED_DIR, ip_folder)
                  if os.path.isdir(ip_path):
                      file_list = []
                      for f in os.listdir(ip_path):
                          f_path = os.path.join(ip_path, f)
                          if os.path.isfile(f_path): file_list.append(
                              {'name': f, 'size': os.path.getsize(f_path),
                               'path_key': f"{ip_folder}/{f}",
                               'upload_time': os.path.getmtime(f_path)})
                      if file_list:
                          file_list.sort(key=lambda x: x['upload_time'], reverse=True)
                          structure[ip_folder] = file_list
          return jsonify({'role': 'pool_view' if (file_pool_active and not is_admin)
                                  else 'admin',
                          'data': structure, 'my_ip': sender_ip,
                          'pool_enabled': file_pool_active})
      else:
          my_files = []
          my_dir = os.path.join(RECEIVED_DIR, sender_ip)
          if os.path.exists(my_dir):
              for f in os.listdir(my_dir):
                  f_path = os.path.join(my_dir, f)
                  if os.path.isfile(f_path): my_files.append(
                      {'name': f, 'size': os.path.getsize(f_path),
                       'upload_time': os.path.getmtime(f_path)})
          my_files.sort(key=lambda x: x['upload_time'], reverse=True)
          return jsonify({'role': 'client', 'data': my_files, 'pool_enabled': False})
  \<close>
  The modification time is a float; only its order is used, and every finite float is a
  rational number. \<open>list.sort(key=.., reverse=True)\<close> sorts in descending order and
  keeps the order of entries with equal keys.
\<close>

definition sort_reverse :: "('a \<Rightarrow> rat) \<Rightarrow> 'a list \<Rightarrow> 'a list" where
  "sort_reverse key xs = rev (sort_key key (rev xs))"

text \<open>
  A loop \<open>for x in xs: if ..: out.append(..)\<close> whose body may raise: \<open>f x\<close> is
  the error, nothing to append, or the entry to append.
\<close>

fun collect :: "('a \<Rightarrow> oserror + 'b option) \<Rightarrow> 'a list \<Rightarrow> oserror + 'b list" where
  "collect f [] = Inr []"
| "collect f (x # xs) =
     (case f x of
        Inl e \<Rightarrow> Inl e
      | Inr r \<Rightarrow>
          (case collect f xs of
             Inl e \<Rightarrow> Inl e
           | Inr rs \<Rightarrow> Inr (case r of None \<Rightarrow> rs | Some y \<Rightarrow> y # rs)))"

definition server_entry_of ::
  "config \<Rightarrow> 'fs os_iface \<Rightarrow> 'fs \<Rightarrow> ustr \<Rightarrow> oserror + server_entry option" where
  "server_entry_of cfg os fs f =
     (let p = os_join os (RELEASE_DIR cfg) f in
      if os_isfile os fs p then
        (case os_getsize os fs p of
           Inl e \<Rightarrow> Inl e
         | Inr sz \<Rightarrow>
             Inr (Some \<lparr>se_name = f, se_size = sz, se_path_key = u ''__release__/'' @ f\<rparr>))
      else Inr None)"

definition peer_entry_of ::
  "'fs os_iface \<Rightarrow> 'fs \<Rightarrow> ustr \<Rightarrow> ustr \<Rightarrow> ustr \<Rightarrow> oserror + peer_entry option" where
  "peer_entry_of os fs ip_folder ip_path f =
     (let f_path = os_join os ip_path f in
      if os_isfile os fs f_path then
        (case os_getsize os fs f_path of
           Inl e \<Rightarrow> Inl e
         | Inr sz \<Rightarrow>
             (case os_getmtime os fs f_path of
                Inl e \<Rightarrow> Inl e
              | Inr mt \<Rightarrow>
                  Inr (Some \<lparr>pe_name = f, pe_size = sz, pe_path_key = ip_folder @ u ''/'' @ f,
                             pe_upload_time = mt\<rparr>)))
      else Inr None)"

definition own_entry_of :: "'fs os_iface \<Rightarrow> 'fs \<Rightarrow> ustr \<Rightarrow> ustr \<Rightarrow> oserror + own_entry option" where
  "own_entry_of os fs my_dir f =
     (let f_path = os_join os my_dir f in
      if os_isfile os fs f_path then
        (case os_getsize os fs f_path of
           Inl e \<Rightarrow> Inl e
         | Inr sz \<Rightarrow>
             (case os_getmtime os fs f_path of
                Inl e \<Rightarrow> Inl e
              | Inr mt \<Rightarrow> Inr (Some \<lparr>oe_name = f, oe_size = sz, oe_upload_time = mt\<rparr>)))
      else Inr None)"

text \<open>The files of one folder of \<open>RECEIVED_DIR\<close>, sorted; \<open>None\<close> if it is no directory.\<close>

definition folder_files ::
  "config \<Rightarrow> 'fs os_iface \<Rightarrow> 'fs \<Rightarrow> ustr \<Rightarrow> oserror + peer_entry list option" where
  "folder_files cfg os fs ip_folder =
     (let ip_path = os_join os (RECEIVED_DIR cfg) ip_folder in
      if os_isdir os fs ip_path then
        (case os_listdir os fs ip_path of
           Inl e \<Rightarrow> Inl e
         | Inr names \<Rightarrow>
             (case collect (peer_entry_of os fs ip_folder ip_path) names of
                Inl e \<Rightarrow> Inl e
              | Inr file_list \<Rightarrow> Inr (Some (sort_reverse pe_upload_time file_list))))
      else Inr None)"

fun add_folders ::
  "config \<Rightarrow> 'fs os_iface \<Rightarrow> 'fs \<Rightarrow> ustr list \<Rightarrow> (ustr, file_group) alist \<Rightarrow>
   oserror + (ustr, file_group) alist" where
  "add_folders cfg os fs [] structure = Inr structure"
| "add_folders cfg os fs (ip_folder # rest) structure =
     (case folder_files cfg os fs ip_folder of
        Inl e \<Rightarrow> Inl e
      | Inr None \<Rightarrow> add_folders cfg os fs rest structure
      | Inr (Some file_list) \<Rightarrow>
          if file_list \<noteq> []
          then add_folders cfg os fs rest
                 (DAList.update ip_folder (Peer_files file_list) structure)
          else add_folders cfg os fs rest structure)"

definition server_files :: "config \<Rightarrow> 'fs os_iface \<Rightarrow> 'fs \<Rightarrow> oserror + server_entry list" where
  "server_files cfg os fs =
     (if os_exists os fs (RELEASE_DIR cfg) then
        (case os_listdir os fs (RELEASE_DIR cfg) of
           Inl e \<Rightarrow> Inl e
         | Inr names \<Rightarrow> collect (server_entry_of cfg os fs) names)
      else Inr [])"

definition received_structure ::
  "config \<Rightarrow> 'fs os_iface \<Rightarrow> 'fs \<Rightarrow> bool \<Rightarrow> oserror + (ustr, file_group) alist" where
  "received_structure cfg os fs file_pool_active =
     (case (if file_pool_active then
              (case server_files cfg os fs of
                 Inl e \<Rightarrow> Inl e
               | Inr entries \<Rightarrow>
                   Inr (DAList.update (u ''Server'') (Server_files entries) DAList.empty))
            else Inr DAList.empty) of
        Inl e \<Rightarrow> Inl e
      | Inr structure \<Rightarrow>
          if os_exists os fs (RECEIVED_DIR cfg) then
            (case os_listdir os fs (RECEIVED_DIR cfg) of
               Inl e \<Rightarrow> Inl e
             | Inr folders \<Rightarrow> add_folders cfg os fs folders structure)
          else Inr structure)"

definition own_files :: "config \<Rightarrow> 'fs os_iface \<Rightarrow> 'fs \<Rightarrow> ustr \<Rightarrow> oserror + own_entry list" where
  "own_files cfg os fs sender_ip =
     (let my_dir = os_join os (RECEIVED_DIR cfg) sender_ip in
      case (if os_exists os fs my_dir then
              (case os_listdir os fs my_dir of
                 Inl e \<Rightarrow> Inl e
               | Inr names \<Rightarrow> collect (own_entry_of os fs my_dir) names)
            else Inr []) of
        Inl e \<Rightarrow> Inl e
      | Inr my_files \<Rightarrow> Inr (sort_reverse oe_upload_time my_files))"

definition list_received_files ::
  "config \<Rightarrow> 'fs os_iface \<Rightarrow> request \<Rightarrow> state \<Rightarrow> 'fs \<Rightarrow> response" where
  "list_received_files cfg os req st fs =
     (let sender_ip = remote_addr req;
          is_admin = is_local_admin req;
          file_pool_active = file_pool st
      in if is_admin \<or> file_pool_active then
           (case received_structure cfg os fs file_pool_active of
              Inl e \<Rightarrow> internal_server_error
            | Inr structure \<Rightarrow>
                Received_all
                  (if file_pool_active \<and> \<not> is_admin then u ''pool_view'' else u ''admin'')
                  structure sender_ip file_pool_active)
         else
           (case own_files cfg os fs sender_ip of
              Inl e \<Rightarrow> internal_server_error
            | Inr my_files \<Rightarrow> Received_own my_files))"

section \<open>A small filesystem to run the handlers on\<close>

text \<open>
  One instance of the interface, for running the handlers on concrete requests: the
  path functions are those of \<open>posixpath\<close>, and the filesystem is a list of
  directories and a list of files (path, content, modification time), looked up by the
  path as it is written. \<open>fs_ticks\<close> is the modification time the next saved file gets.
  \<^verbatim>\<open>
  def join(a, *p):                      def basename(p):
      path = a                              i = p.rfind('/') + 1
      for b in p:                           return p[i:]
          if b.startswith('/'):         def dirname(p):
              path = b                      i = p.rfind('/') + 1
          elif not path or path.endswith('/'):      head = p[:i]
              path += b                     if head and head != '/'*len(head):
          else:                                 head = head.rstrip('/')
              path += '/' + b               return head
      return path
  \<close>
\<close>

definition posix_join :: "ustr \<Rightarrow> ustr \<Rightarrow> ustr" where
  "posix_join a b =
     (if startswith b (u ''/'') then b
      else if a = [] \<or> last a = 47 then a @ b
      else a @ u ''/'' @ b)"

definition posix_basename :: "ustr \<Rightarrow> ustr" where
  "posix_basename p = drop (nat (rfind p 47 + 1)) p"

definition posix_dirname :: "ustr \<Rightarrow> ustr" where
  "posix_dirname p =
     (let head = take (nat (rfind p 47 + 1)) p in
      if head \<noteq> [] \<and> head \<noteq> replicate (length head) 47
      then rev (dropWhile (\<lambda>c. c = 47) (rev head))
      else head)"

record small_fs =
  fs_dirs :: "ustr list"
  fs_files :: "(ustr \<times> content \<times> rat) list"
  fs_ticks :: rat

definition small_isfile :: "small_fs \<Rightarrow> ustr \<Rightarrow> bool" where
  "small_isfile fs p = (map_of (fs_files fs) p \<noteq> None)"

definition small_isdir :: "small_fs \<Rightarrow> ustr \<Rightarrow> bool" where
  "small_isdir fs p = (p \<in> set (fs_dirs fs))"

definition small_exists :: "small_fs \<Rightarrow> ustr \<Rightarrow> bool" where
  "small_exists fs p = (small_isfile fs p \<or> small_isdir fs p)"

definition no_such_file :: oserror where
  "no_such_file = u ''No such file or directory''"

definition small_getsize :: "small_fs \<Rightarrow> ustr \<Rightarrow> oserror + nat" where
  "small_getsize fs p =
     (case map_of (fs_files fs) p of
        None \<Rightarrow> if small_isdir fs p then Inr 0 else Inl no_such_file
      | Some (c, mt) \<Rightarrow> Inr (length c))"

definition small_getmtime :: "small_fs \<Rightarrow> ustr \<Rightarrow> oserror + rat" where
  "small_getmtime fs p =
     (case map_of (fs_files fs) p of
        None \<Rightarrow> if small_isdir fs p then Inr 0 else Inl no_such_file
      | Some (c, mt) \<Rightarrow> Inr mt)"

text \<open>The name of \<open>p\<close> inside directory \<open>d\<close>, if \<open>p\<close> lies directly in \<open>d\<close>.\<close>

definition entry_in :: "ustr \<Rightarrow> ustr \<Rightarrow> ustr option" where
  "entry_in d p =
     (let n = drop (length d + 1) p in
      if startswith p (d @ u ''/'') \<and> n \<noteq> [] \<and> 47 \<notin> set n then Some n else None)"

definition small_listdir :: "small_fs \<Rightarrow> ustr \<Rightarrow> oserror + ustr list" where
  "small_listdir fs d =
     (if small_isdir fs d
      then Inr (List.map_filter (entry_in d) (fs_dirs fs @ map fst (fs_files fs)))
      else Inl no_such_file)"

definition small_makedirs :: "small_fs \<Rightarrow> ustr \<Rightarrow> oserror + small_fs" where
  "small_makedirs fs d =
     (if small_exists fs d then Inl (u ''File exists'')
      else Inr (fs\<lparr>fs_dirs := fs_dirs fs @ [d]\<rparr>))"

definition small_remove :: "small_fs \<Rightarrow> ustr \<Rightarrow> oserror + small_fs" where
  "small_remove fs p =
     (if small_isfile fs p
      then Inr (fs\<lparr>fs_files := filter (\<lambda>entry. fst entry \<noteq> p) (fs_files fs)\<rparr>)
      else Inl (if small_isdir fs p then u ''Is a directory'' else no_such_file))"

definition small_rmdir :: "small_fs \<Rightarrow> ustr \<Rightarrow> oserror + small_fs" where
  "small_rmdir fs d =
     (case small_listdir fs d of
        Inl e \<Rightarrow> Inl e
      | Inr names \<Rightarrow>
          if names = [] then Inr (fs\<lparr>fs_dirs := removeAll d (fs_dirs fs)\<rparr>)
          else Inl (u ''Directory not empty''))"

definition small_save :: "small_fs \<Rightarrow> ustr \<Rightarrow> content \<Rightarrow> oserror + small_fs" where
  "small_save fs p c =
     (if small_isdir fs p then Inl (u ''Is a directory'')
      else Inr (fs\<lparr>fs_files := AList.update p (c, fs_ticks fs) (fs_files fs),
                   fs_ticks := fs_ticks fs + 1\<rparr>))"

text \<open>
  \<open>send_from_directory\<close> joins with \<open>werkzeug.security.safe_join\<close>, which refuses a
  name that is absolute or has a \<open>..\<close> segment, and then wants a regular file.
\<close>

definition small_send :: "small_fs \<Rightarrow> ustr \<Rightarrow> ustr \<Rightarrow> content option" where
  "small_send fs directory name =
     (if startswith name (u ''/'') \<or> u ''..'' \<in> set (split_chr 47 name) then None
      else map_option fst (map_of (fs_files fs) (posix_join directory name)))"

definition small_os :: "small_fs os_iface" where
  "small_os =
     \<lparr>os_join = posix_join, os_basename = posix_basename, os_dirname = posix_dirname,
      os_exists = small_exists, os_isfile = small_isfile, os_isdir = small_isdir,
      os_getsize = small_getsize, os_getmtime = small_getmtime, os_listdir = small_listdir,
      os_makedirs = small_makedirs, os_remove = small_remove, os_rmdir = small_rmdir,
      file_save = small_save, flask_send = small_send\<rparr>"

definition empty_fs :: small_fs where
  "empty_fs = \<lparr>fs_dirs = [u ''release'', u ''received''], fs_files = [], fs_ticks = 1\<rparr>"


section \<open>Concrete inputs\<close>

text \<open>States, requests and files on which the theorems below are instantiated.\<close>

definition numbered_op :: "nat \<Rightarrow> record_op" where
  "numbered_op i =
     \<lparr>op_clock = \<lparr>now = 0, time_us = int i\<rparr>, op_type = u ''system'', op_msg = u ''tick'',
      op_ip = Some (u ''Server''), op_filename = None\<rparr>"

definition full_log_state :: state where
  "full_log_state = (initial_state 8000)\<lparr>EVENT_LOG := replicate 50 (event_of (numbered_op 99))\<rparr>"

definition stale_peer :: peer where
  "stale_peer = \<lparr>last_seen = 0, peer_action = u ''idle'', action_time = 0,
                 peer_device_type = u ''desktop''\<rparr>"

definition stale_state :: state where
  "stale_state =
     (initial_state 8000)\<lparr>ACTIVE_PEERS := DAList.update (u ''10.0.0.5'') stale_peer DAList.empty,
                           LAST_ONLINE_IPS := {u ''10.0.0.5''}\<rparr>"


definition report_event :: event where
  "report_event =
     mk_event \<lparr>now = seconds 5, time_us = 1700000000000000\<rparr> (u ''upload'')
       (msg_uploaded @ u ''report.pdf'') (Some (u ''10.0.0.5'')) (Some (u ''report.pdf''))"

definition peer_request :: request where
  "peer_request =
     \<lparr>remote_addr = u ''10.0.0.5'', endpoint = Some (u ''upload_file''), path = u ''/upload'',
      user_agent = u ''mozilla/5.0 (x11; linux x86_64)''\<rparr>"

definition admin_request :: request where
  "admin_request =
     \<lparr>remote_addr = u ''127.0.0.1'', endpoint = Some (u ''upload_file''), path = u ''/upload'',
      user_agent = u ''mozilla/5.0 (x11; linux x86_64)''\<rparr>"

definition noon :: clock where
  "noon = \<lparr>now = seconds 43200, time_us = 1700000000000000\<rparr>"

definition locked_state :: state where
  "locked_state = (initial_state 8000)\<lparr>locked := True\<rparr>"

definition one_file :: "(ustr option \<times> content) list" where
  "one_file = [(Some (u ''report.pdf''), [37, 80, 68, 70])]"

definition evil_file :: "(ustr option \<times> content) list" where
  "evil_file = [(Some (u ''../evil.txt''), [37, 80, 68, 70])]"




definition pool_state :: state where
  "pool_state = (initial_state 8000)\<lparr>file_pool := True\<rparr>"



definition entry_notes :: server_entry where
  "entry_notes = \<lparr>se_name = u ''notes.txt'', se_size = 4,
                  se_path_key = u ''__release__/notes.txt''\<rparr>"

definition server_folder_fs :: small_fs where
  "server_folder_fs =
     \<lparr>fs_dirs = [u ''release'', u ''received'', u ''received/Server''],
      fs_files = [(u ''release/notes.txt'', [110, 111, 116, 101], 2),
                  (u ''received/Server/s.txt'', [115], 3)],
      fs_ticks = 4\<rparr>"

definition entry_s :: peer_entry where
  "entry_s = \<lparr>pe_name = u ''s.txt'', pe_size = 1, pe_path_key = u ''Server/s.txt'',
              pe_upload_time = 3\<rparr>"


section \<open>The event log is bounded\<close>

lemma length_appendleft:
  "length d \<le> n \<Longrightarrow> length (appendleft n x d) \<le> n"
  by (simp add: appendleft_def Let_def)

lemma appendleft_take:
  "length d \<le> n \<Longrightarrow> appendleft n x d = take n (x # d)"
  by (cases "length d = n") (simp_all add: appendleft_def Let_def butlast_conv_take)

lemma appendleft_full:
  "length d = n \<Longrightarrow> 0 < n \<Longrightarrow> appendleft n x d = x # butlast d"
  by (cases d) (simp_all add: appendleft_def Let_def)

lemma log_record_op_apply:
  "length (EVENT_LOG st) \<le> MAX_EVENTS \<Longrightarrow>
   EVENT_LOG (record_op_apply st r) = take MAX_EVENTS (event_of r # EVENT_LOG st)"
  by (simp add: record_op_apply_def add_event_def event_of_def appendleft_take)

lemma log_record_all:
  "length (EVENT_LOG st) \<le> MAX_EVENTS \<Longrightarrow>
   EVENT_LOG (record_all ops st) = take MAX_EVENTS (rev (map event_of ops) @ EVENT_LOG st)"
proof (induction ops arbitrary: st)
  case Nil
  then show ?case by (simp add: record_all_def)
next
  case (Cons r ops)
  let ?st' = "record_op_apply st r"
  have eq: "EVENT_LOG ?st' = take MAX_EVENTS (event_of r # EVENT_LOG st)"
    using Cons.prems by (rule log_record_op_apply)
  then have len: "length (EVENT_LOG ?st') \<le> MAX_EVENTS" by simp
  have "EVENT_LOG (record_all (r # ops) st) = EVENT_LOG (record_all ops ?st')"
    by (simp add: record_all_def)
  also have "\<dots> = take MAX_EVENTS (rev (map event_of ops) @ EVENT_LOG ?st')"
    using len by (rule Cons.IH)
  also have "\<dots> = take MAX_EVENTS (rev (map event_of ops) @ event_of r # EVENT_LOG st)"
    unfolding eq by (simp add: take_add min_def)
  finally show ?case by simp
qed

lemma log_after_capacity_plus_one:
  assumes "length ops = Suc MAX_EVENTS" "length (EVENT_LOG st) \<le> MAX_EVENTS"
  shows "EVENT_LOG (record_all ops st) = rev (map event_of (tl ops))"
proof -
  obtain r rest where ops: "ops = r # rest" and len: "length rest = MAX_EVENTS"
    using assms(1) by (cases ops) auto
  have "EVENT_LOG (record_all ops st) =
        take MAX_EVENTS (rev (map event_of rest) @ event_of r # EVENT_LOG st)"
    using log_record_all [OF assms(2), of ops] by (simp add: ops)
  also have "\<dots> = rev (map event_of rest)"
    using len by simp
  finally show ?thesis by (simp add: ops)
qed

text \<open>
  Claim C4. Whatever sequence of events is recorded, the event log never holds more than
  its capacity of 50 entries; recording into a full log drops the entry at the tail, the
  oldest one; the log is ordered most recent first, so that after capacity + 1 events
  have been recorded it holds exactly the last 50 of them, the last one at the head and
  the first one gone.
\<close>

theorem event_log_capacity:
  "MAX_EVENTS = 50 \<and>
   length (EVENT_LOG (record_all ops (initial_state port))) \<le> MAX_EVENTS \<and>
   EVENT_LOG (record_all ops (initial_state port)) = take MAX_EVENTS (rev (map event_of ops)) \<and>
   (length (EVENT_LOG st) \<le> MAX_EVENTS \<longrightarrow>
      length (EVENT_LOG (record_all ops st)) \<le> MAX_EVENTS) \<and>
   (length (EVENT_LOG st) = MAX_EVENTS \<longrightarrow>
      EVENT_LOG (add_event clk ty m ip fn st) =
        mk_event clk ty m ip fn # butlast (EVENT_LOG st)) \<and>
   (length (EVENT_LOG st) \<le> MAX_EVENTS \<and> length ops = MAX_EVENTS + 1 \<longrightarrow>
      EVENT_LOG (record_all ops st) = rev (map event_of (tl ops)) \<and>
      hd (EVENT_LOG (record_all ops st)) = event_of (last ops) \<and>
      (event_of (hd ops) \<notin> set (map event_of (tl ops)) \<longrightarrow>
         event_of (hd ops) \<notin> set (EVENT_LOG (record_all ops st))))"
proof (intro conjI impI)
  show "MAX_EVENTS = 50" by (simp add: MAX_EVENTS_def)
  have init: "length (EVENT_LOG (initial_state port)) \<le> MAX_EVENTS"
    by (simp add: initial_state_def)
  show eq: "EVENT_LOG (record_all ops (initial_state port)) =
        take MAX_EVENTS (rev (map event_of ops))"
    using log_record_all [OF init, of ops] by (simp add: initial_state_def)
  show "length (EVENT_LOG (record_all ops (initial_state port))) \<le> MAX_EVENTS"
    unfolding eq by simp
next
  assume "length (EVENT_LOG st) \<le> MAX_EVENTS"
  then show "length (EVENT_LOG (record_all ops st)) \<le> MAX_EVENTS"
    by (simp add: log_record_all)
next
  assume "length (EVENT_LOG st) = MAX_EVENTS"
  then show "EVENT_LOG (add_event clk ty m ip fn st) =
      mk_event clk ty m ip fn # butlast (EVENT_LOG st)"
    by (simp add: add_event_def appendleft_full MAX_EVENTS_def)
next
  assume a: "length (EVENT_LOG st) \<le> MAX_EVENTS \<and> length ops = MAX_EVENTS + 1"
  then have eq: "EVENT_LOG (record_all ops st) = rev (map event_of (tl ops))"
    by (simp add: log_after_capacity_plus_one)
  show "EVENT_LOG (record_all ops st) = rev (map event_of (tl ops))" by (rule eq)
  have ne: "tl ops \<noteq> []" using a by (cases ops) (auto simp: MAX_EVENTS_def)
  then have "ops \<noteq> []" by auto
  show "hd (EVENT_LOG (record_all ops st)) = event_of (last ops)"
    unfolding eq using ne \<open>ops \<noteq> []\<close>
    by (simp add: hd_rev last_map last_tl)
  assume "event_of (hd ops) \<notin> set (map event_of (tl ops))"
  then show "event_of (hd ops) \<notin> set (EVENT_LOG (record_all ops st))"
    unfolding eq by simp
qed

lemma numbered_op_inj: "event_of (numbered_op i) = event_of (numbered_op j) \<longleftrightarrow> i = j"
  by (auto simp: event_of_def numbered_op_def mk_event_def)

theorem event_log_capacity_witness:
  "length (EVENT_LOG full_log_state) = MAX_EVENTS \<and>
   length (map numbered_op [0..<51]) = MAX_EVENTS + 1 \<and>
   event_of (hd (map numbered_op [0..<51])) \<notin> set (map event_of (tl (map numbered_op [0..<51]))) \<and>
   EVENT_LOG (add_event \<lparr>now = 0, time_us = 7\<rparr> (u ''system'') (u ''tick'') None None full_log_state) =
     mk_event \<lparr>now = 0, time_us = 7\<rparr> (u ''system'') (u ''tick'') None None #
     butlast (EVENT_LOG full_log_state) \<and>
   EVENT_LOG (record_all (map numbered_op [0..<51]) full_log_state) =
     rev (map event_of (map numbered_op [1..<51])) \<and>
   hd (EVENT_LOG (record_all (map numbered_op [0..<51]) full_log_state)) = event_of (numbered_op 50) \<and>
   event_of (numbered_op 0) \<notin> set (EVENT_LOG (record_all (map numbered_op [0..<51]) full_log_state))"
proof -
  have l: "length (EVENT_LOG full_log_state) = MAX_EVENTS"
    by (simp add: full_log_state_def MAX_EVENTS_def)
  have n: "length (map numbered_op [0..<51]) = MAX_EVENTS + 1"
    by (simp add: MAX_EVENTS_def)
  have tl_eq: "tl (map numbered_op [0..<51]) = map numbered_op [1..<51]"
    by (simp add: upt_conv_Cons [of 0 51])
  have hd_eq: "hd (map numbered_op [0..<51]) = numbered_op 0"
    by (simp add: upt_conv_Cons [of 0 51])
  have last_eq: "last (map numbered_op [0..<51]) = numbered_op 50"
    by (simp add: last_map)
  have d: "event_of (hd (map numbered_op [0..<51])) \<notin>
           set (map event_of (tl (map numbered_op [0..<51])))"
    unfolding tl_eq hd_eq by (auto simp: numbered_op_inj)
  note t = event_log_capacity [of "map numbered_op [0..<51]" 8000 full_log_state
      "\<lparr>now = 0, time_us = 7\<rparr>" "u ''system''" "u ''tick''" None None]
  have le: "length (EVENT_LOG full_log_state) \<le> MAX_EVENTS" using l by simp
  from t l have a: "EVENT_LOG (add_event \<lparr>now = 0, time_us = 7\<rparr> (u ''system'') (u ''tick'')
        None None full_log_state) =
      mk_event \<lparr>now = 0, time_us = 7\<rparr> (u ''system'') (u ''tick'') None None #
      butlast (EVENT_LOG full_log_state)"
    by blast
  from t le n d
  have b: "EVENT_LOG (record_all (map numbered_op [0..<51]) full_log_state) =
        rev (map event_of (tl (map numbered_op [0..<51])))"
    and c: "hd (EVENT_LOG (record_all (map numbered_op [0..<51]) full_log_state)) =
        event_of (last (map numbered_op [0..<51]))"
    and e: "event_of (hd (map numbered_op [0..<51])) \<notin>
        set (EVENT_LOG (record_all (map numbered_op [0..<51]) full_log_state))"
    by blast+
  show ?thesis
    using l n d a b c e unfolding tl_eq hd_eq last_eq by (intro conjI)
qed


section \<open>Masking keeps two characters and the extension\<close>

lemma rfind_spec:
  "(rfind p c = - 1 \<and> c \<notin> set p) \<or>
   (\<exists>i. rfind p c = int i \<and> i < length p \<and> p ! i = c \<and>
        (\<forall>j. i < j \<and> j < length p \<longrightarrow> p ! j \<noteq> c))"
proof (cases "filter (\<lambda>i. p ! i = c) (rev [0..<length p])")
  case Nil
  then have "\<forall>i < length p. p ! i \<noteq> c"
    by (auto simp: filter_empty_conv)
  then have "c \<notin> set p" by (auto simp: in_set_conv_nth)
  moreover have "rfind p c = - 1" using Nil by (simp add: rfind_def)
  ultimately show ?thesis by simp
next
  case (Cons i rest)
  then have "rev (filter (\<lambda>i. p ! i = c) [0..<length p]) = i # rest"
    by (simp add: rev_filter)
  then have f: "filter (\<lambda>i. p ! i = c) [0..<length p] = rev rest @ [i]"
    by (metis rev.simps(2) rev_rev_ident)
  have "i \<in> set (filter (\<lambda>i. p ! i = c) [0..<length p])" unfolding f by simp
  then have i: "i < length p" "p ! i = c" by auto
  have "sorted (filter (\<lambda>i. p ! i = c) [0..<length p])"
    by (rule sorted_wrt_filter) simp
  then have le: "\<forall>j \<in> set (rev rest). j \<le> i"
    unfolding f by (simp add: sorted_append)
  have "p ! j \<noteq> c" if "i < j" "j < length p" for j
  proof
    assume "p ! j = c"
    with that have "j \<in> set (filter (\<lambda>i. p ! i = c) [0..<length p])" by simp
    then have "j \<in> set (rev rest) \<or> j = i" unfolding f by auto
    with le that show False by auto
  qed
  moreover have "rfind p c = int i" using Cons by (simp add: rfind_def)
  ultimately show ?thesis using i by auto
qed

lemma rfind_absent: "c \<notin> set p \<Longrightarrow> rfind p c = - 1"
  using rfind_spec [of p c] by (auto simp: in_set_conv_nth)

lemma rfind_ge: "- 1 \<le> rfind p c"
  using rfind_spec [of p c] by auto

lemma splitext_generic_parts:
  "case splitext_generic p sep altsep 46 of (name, ext) \<Rightarrow>
     name @ ext = p \<and> (ext = [] \<or> (\<exists>rest. ext = 46 # rest \<and> 46 \<notin> set rest))"
proof -
  consider (absent) "rfind p 46 = - 1" "46 \<notin> set p"
    | (found) i where "rfind p 46 = int i" "i < length p" "p ! i = 46"
        "\<forall>j. i < j \<and> j < length p \<longrightarrow> p ! j \<noteq> 46"
    using rfind_spec [of p 46] by blast
  then show ?thesis
  proof cases
    case absent
    have "\<not> - 1 > max a b" if "- 1 \<le> a" for a b :: int using that by simp
    then show ?thesis
      using absent rfind_ge [of p sep]
      by (auto simp: splitext_generic_def Let_def split: option.split)
  next
    case (found i)
    have "drop i p = 46 # drop (Suc i) p"
      using found(2,3) by (simp add: Cons_nth_drop_Suc [symmetric])
    moreover have "46 \<notin> set (drop (Suc i) p)"
      using found(4) by (auto simp: in_set_conv_nth)
    ultimately show ?thesis
      using found(1) append_take_drop_id [of i p]
      by (simp add: splitext_generic_def Let_def split: option.split del: append_take_drop_id)
  qed
qed

lemma splitext_generic_no_dot: "46 \<notin> set p \<Longrightarrow> splitext_generic p sep altsep 46 = (p, [])"
  using rfind_ge [of p sep]
  by (auto simp: splitext_generic_def Let_def rfind_absent split: option.split)

lemma splitext_parts:
  "case splitext pf p of (name, ext) \<Rightarrow>
     name @ ext = p \<and> (ext = [] \<or> (\<exists>rest. ext = 46 # rest \<and> 46 \<notin> set rest))"
  by (cases pf) (simp_all add: splitext_def splitext_generic_parts)

lemma splitext_no_dot: "46 \<notin> set p \<Longrightarrow> splitext pf p = (p, [])"
  by (cases pf) (simp_all add: splitext_def splitext_generic_no_dot)

lemma get_masked_name_eq:
  "get_masked_name pf filename =
     take 2 (fst (splitext pf filename)) @ u ''***'' @ snd (splitext pf filename)"
proof (cases "filename = []")
  case True
  then show ?thesis
    by (simp add: get_masked_name_def splitext_no_dot)
next
  case False
  then show ?thesis
    by (simp add: get_masked_name_def split: prod.split)
qed

lemma masked_report_pdf:
  "get_masked_name Posix (u ''report.pdf'') = u ''re***.pdf''"
  "get_masked_name Nt (u ''report.pdf'') = u ''re***.pdf''"
  by code_simp+

lemma masked_non_ascii:
  "get_masked_name Posix ([25253, 21578, 20070] @ u ''.pdf'') = [25253, 21578] @ u ''***.pdf''"
  "get_masked_name Nt ([25253, 21578, 20070] @ u ''.pdf'') = [25253, 21578] @ u ''***.pdf''"
  by (simp_all add: get_masked_name_def splitext_def splitext_generic_def rfind_def u_def
        skip_leading_dots.simps upt_rec)

text \<open>
  Claim C3. For every filename, \<open>get_masked_name\<close> keeps the first two characters of the
  base name (what \<open>os.path.splitext\<close> puts before the extension) and the extension, and
  puts the marker \<open>***\<close> in place of the rest; a base name of at most two characters is
  kept whole before the marker. The function is total: it returns a string for every
  sequence of code points, with or without an extension, ASCII or not. Masking
  \<open>report.pdf\<close> gives \<open>re***.pdf\<close>.
\<close>

theorem get_masked_name_keeps_two:
  "(case splitext pf filename of (name, ext) \<Rightarrow>
      name @ ext = filename \<and>
      (ext = [] \<or> (\<exists>rest. ext = u ''.'' @ rest \<and> 46 \<notin> set rest)) \<and>
      get_masked_name pf filename = take 2 name @ u ''***'' @ ext \<and>
      (length name \<le> 2 \<longrightarrow> get_masked_name pf filename = name @ u ''***'' @ ext)) \<and>
   (46 \<notin> set filename \<longrightarrow>
      get_masked_name pf filename = take 2 filename @ u ''***'') \<and>
   get_masked_name pf (u ''report.pdf'') = u ''re***.pdf'' \<and>
   get_masked_name pf ([25253, 21578, 20070] @ u ''.pdf'') = [25253, 21578] @ u ''***.pdf''"
proof (intro conjI)
  obtain name ext where s: "splitext pf filename = (name, ext)" by (cases "splitext pf filename")
  have "name @ ext = filename \<and> (ext = [] \<or> (\<exists>rest. ext = u ''.'' @ rest \<and> 46 \<notin> set rest))"
    using splitext_parts [where pf = pf and p = filename] by (simp add: s u_def)
  moreover have g: "get_masked_name pf filename = take 2 name @ u ''***'' @ ext"
    by (simp add: get_masked_name_eq s)
  ultimately show "case splitext pf filename of (name, ext) \<Rightarrow>
      name @ ext = filename \<and>
      (ext = [] \<or> (\<exists>rest. ext = u ''.'' @ rest \<and> 46 \<notin> set rest)) \<and>
      get_masked_name pf filename = take 2 name @ u ''***'' @ ext \<and>
      (length name \<le> 2 \<longrightarrow> get_masked_name pf filename = name @ u ''***'' @ ext)"
    by (simp add: s)
  show "46 \<notin> set filename \<longrightarrow> get_masked_name pf filename = take 2 filename @ u ''***''"
    by (simp add: get_masked_name_eq splitext_no_dot)
  show "get_masked_name pf (u ''report.pdf'') = u ''re***.pdf''"
    by (cases pf) (simp_all only: masked_report_pdf)
  show "get_masked_name pf ([25253, 21578, 20070] @ u ''.pdf'') = [25253, 21578] @ u ''***.pdf''"
    by (cases pf) (simp_all only: masked_non_ascii)
qed

theorem get_masked_name_keeps_two_witness:
  "splitext Posix (u ''ab'') = (u ''ab'', []) \<and>
   length (u ''ab'') \<le> 2 \<and> 46 \<notin> set (u ''ab'') \<and>
   get_masked_name Posix (u ''ab'') = u ''ab***'' \<and>
   splitext Nt (u ''a.tar.gz'') = (u ''a.tar'', u ''.gz'') \<and>
   get_masked_name Nt (u ''a.tar.gz'') = u ''a.***.gz''"
proof -
  have s1: "splitext Posix (u ''ab'') = (u ''ab'', [])" by code_simp
  have s2: "splitext Nt (u ''a.tar.gz'') = (u ''a.tar'', u ''.gz'')" by code_simp
  have l: "length (u ''ab'') \<le> 2" and n: "46 \<notin> set (u ''ab'')" by (simp_all add: u_def)
  from get_masked_name_keeps_two [where pf = Posix and filename = "u ''ab''"] l n
  have a: "get_masked_name Posix (u ''ab'') = u ''ab'' @ u ''***''"
    by (simp add: s1)
  from get_masked_name_keeps_two [where pf = Nt and filename = "u ''a.tar.gz''"]
  have b: "get_masked_name Nt (u ''a.tar.gz'') = take 2 (u ''a.tar'') @ u ''***'' @ u ''.gz''"
    by (simp add: s2)
  show ?thesis using s1 s2 l n a b by (simp add: u_def)
qed


section \<open>What a sweep does to the state\<close>

lemma record_all_append:
  "record_all (xs @ ys) st = record_all ys (record_all xs st)"
  by (simp add: record_all_def)

lemma record_all_fields:
  "locked (record_all ops st) = locked st"
  "file_pool (record_all ops st) = file_pool st"
  "current_port (record_all ops st) = current_port st"
  "ACTIVE_PEERS (record_all ops st) = ACTIVE_PEERS st"
  "LAST_ONLINE_IPS (record_all ops st) = LAST_ONLINE_IPS st"
  by (induction ops arbitrary: st; simp add: record_all_def record_op_apply_def add_event_def)+

lemma record_all_log_cong:
  "EVENT_LOG st = EVENT_LOG st' \<Longrightarrow>
   EVENT_LOG (record_all ops st) = EVENT_LOG (record_all ops st')"
proof (induction ops arbitrary: st st')
  case Nil
  then show ?case by (simp add: record_all_def)
next
  case (Cons r ops)
  have "EVENT_LOG (record_op_apply st r) = EVENT_LOG (record_op_apply st' r)"
    using Cons.prems by (simp add: record_op_apply_def add_event_def)
  then have "EVENT_LOG (record_all ops (record_op_apply st r)) =
             EVENT_LOG (record_all ops (record_op_apply st' r))"
    by (rule Cons.IH)
  then show ?case by (simp add: record_all_def)
qed

lemma sweep_item_lists:
  "snd (foldl (sweep_item t) (peers, to_remove, current_ips) items) =
     (to_remove @ stale_ips t items, current_ips \<union> set (live_ips t items))"
proof (induction items arbitrary: peers to_remove current_ips)
  case Nil
  then show ?case by (simp add: stale_ips_def live_ips_def)
next
  case (Cons item items)
  obtain ip data where item: "item = (ip, data)" by (cases item)
  show ?case
    unfolding item foldl_Cons
    by (cases "t - last_seen data > seconds PEER_TIMEOUT")
       (simp_all add: sweep_item_def Let_def Cons.IH stale_ips_def live_ips_def)
qed

lemma remove_peers_fields:
  "locked (foldl (remove_peer clk) st ips) = locked st"
  "file_pool (foldl (remove_peer clk) st ips) = file_pool st"
  "current_port (foldl (remove_peer clk) st ips) = current_port st"
  "LAST_ONLINE_IPS (foldl (remove_peer clk) st ips) = LAST_ONLINE_IPS st"
  by (induction ips arbitrary: st; simp add: remove_peer_def add_event_def)+

lemma remove_peers_lookup:
  "DAList.lookup (ACTIVE_PEERS (foldl (remove_peer clk) st ips)) k =
     (if k \<in> set ips then None else DAList.lookup (ACTIVE_PEERS st) k)"
  by (induction ips arbitrary: st) (auto simp: remove_peer_def add_event_def)

lemma remove_peers_log:
  "EVENT_LOG (foldl (remove_peer clk) st ips) =
     EVENT_LOG (record_all (map (leave_op clk) ips) st)"
proof (induction ips arbitrary: st)
  case Nil
  then show ?case by (simp add: record_all_def)
next
  case (Cons ip ips)
  have "EVENT_LOG (remove_peer clk st ip) = EVENT_LOG (record_op_apply st (leave_op clk ip))"
    by (simp add: remove_peer_def record_op_apply_def leave_op_def add_event_def)
  then have "EVENT_LOG (record_all (map (leave_op clk) ips) (remove_peer clk st ip)) =
             EVENT_LOG (record_all (map (leave_op clk) ips) (record_op_apply st (leave_op clk ip)))"
    by (rule record_all_log_cong)
  then show ?case by (simp add: Cons.IH) (simp add: record_all_def)
qed

lemma announce_peers_fields:
  "locked (foldl (announce_peer clk) st ips) = locked st"
  "file_pool (foldl (announce_peer clk) st ips) = file_pool st"
  "current_port (foldl (announce_peer clk) st ips) = current_port st"
  "ACTIVE_PEERS (foldl (announce_peer clk) st ips) = ACTIVE_PEERS st"
  "LAST_ONLINE_IPS (foldl (announce_peer clk) st ips) = LAST_ONLINE_IPS st"
  by (induction ips arbitrary: st; simp add: announce_peer_def add_event_def)+

lemma announce_peers_log:
  "EVENT_LOG (foldl (announce_peer clk) st ips) =
     EVENT_LOG (record_all (map (join_op clk) (filter (\<lambda>ip. ip \<noteq> u ''127.0.0.1'') ips)) st)"
proof (induction ips arbitrary: st)
  case Nil
  then show ?case by (simp add: record_all_def)
next
  case (Cons ip ips)
  show ?case
  proof (cases "ip = u ''127.0.0.1''")
    case True
    then have "announce_peer clk st ip = st" by (simp add: announce_peer_def)
    then show ?thesis using True by (simp add: Cons.IH)
  next
    case False
    have "EVENT_LOG (announce_peer clk st ip) = EVENT_LOG (record_op_apply st (join_op clk ip))"
      using False by (simp add: announce_peer_def record_op_apply_def join_op_def)
    then have "EVENT_LOG (record_all (map (join_op clk) (filter (\<lambda>ip. ip \<noteq> u ''127.0.0.1'') ips))
                 (announce_peer clk st ip)) =
               EVENT_LOG (record_all (map (join_op clk) (filter (\<lambda>ip. ip \<noteq> u ''127.0.0.1'') ips))
                 (record_op_apply st (join_op clk ip)))"
      by (rule record_all_log_cong)
    then show ?thesis using False by (simp add: Cons.IH) (simp add: record_all_def)
  qed
qed

text \<open>The state after a sweep, field by field.\<close>

lemma sweep_result:
  fixes set_iter clk st
  defines "items \<equiv> DAList.impl_of (ACTIVE_PEERS st)"
  defines "st' \<equiv> check_peers_lifecycle set_iter clk st"
  shows "locked st' = locked st"
    and "file_pool st' = file_pool st"
    and "current_port st' = current_port st"
    and "LAST_ONLINE_IPS st' = set (live_ips (now clk) items)"
    and "EVENT_LOG st' = EVENT_LOG (record_all (sweep_calls set_iter clk st) st)"
    and "k \<in> set (stale_ips (now clk) items) \<Longrightarrow> DAList.lookup (ACTIVE_PEERS st') k = None"
proof -
  obtain peers where f: "foldl (sweep_item (now clk)) (ACTIVE_PEERS st, [], {}) items =
      (peers, stale_ips (now clk) items, set (live_ips (now clk) items))"
    using sweep_item_lists [of "now clk" "ACTIVE_PEERS st" "[]" "{}" items]
    by (cases "foldl (sweep_item (now clk)) (ACTIVE_PEERS st, [], {}) items") simp
  let ?st1 = "foldl (remove_peer clk) (st\<lparr>ACTIVE_PEERS := peers\<rparr>) (stale_ips (now clk) items)"
  let ?new = "set (live_ips (now clk) items) - LAST_ONLINE_IPS st"
  let ?st2 = "foldl (announce_peer clk) ?st1 (set_iter ?new)"
  have st': "st' = ?st2\<lparr>LAST_ONLINE_IPS := set (live_ips (now clk) items)\<rparr>"
    unfolding st'_def check_peers_lifecycle_def items_def [symmetric] f
    by (simp add: Let_def remove_peers_fields)
  show "locked st' = locked st" "file_pool st' = file_pool st"
     "current_port st' = current_port st"
     "LAST_ONLINE_IPS st' = set (live_ips (now clk) items)"
    unfolding st' by (simp_all add: announce_peers_fields remove_peers_fields)
  have "EVENT_LOG st' = EVENT_LOG ?st2" unfolding st' by simp
  also have "\<dots> = EVENT_LOG (record_all
       (map (join_op clk) (filter (\<lambda>ip. ip \<noteq> u ''127.0.0.1'') (set_iter ?new))) ?st1)"
    by (rule announce_peers_log)
  also have "\<dots> = EVENT_LOG (record_all
       (map (join_op clk) (filter (\<lambda>ip. ip \<noteq> u ''127.0.0.1'') (set_iter ?new)))
       (record_all (map (leave_op clk) (stale_ips (now clk) items)) st))"
  proof (rule record_all_log_cong)
    have "EVENT_LOG ?st1 =
          EVENT_LOG (record_all (map (leave_op clk) (stale_ips (now clk) items))
                       (st\<lparr>ACTIVE_PEERS := peers\<rparr>))"
      by (rule remove_peers_log)
    also have "\<dots> = EVENT_LOG (record_all (map (leave_op clk) (stale_ips (now clk) items)) st)"
      by (rule record_all_log_cong) simp
    finally show "EVENT_LOG ?st1 =
        EVENT_LOG (record_all (map (leave_op clk) (stale_ips (now clk) items)) st)" .
  qed
  also have "\<dots> = EVENT_LOG (record_all (sweep_calls set_iter clk st) st)"
    by (simp add: sweep_calls_def Let_def items_def record_all_append)
  finally show "EVENT_LOG st' = EVENT_LOG (record_all (sweep_calls set_iter clk st) st)" .
  assume "k \<in> set (stale_ips (now clk) items)"
  then show "DAList.lookup (ACTIVE_PEERS st') k = None"
    unfolding st' by (simp add: announce_peers_fields remove_peers_lookup)
qed


section \<open>A sweep removes a peer that timed out\<close>






section \<open>Which filenames a status response masks\<close>

lemma api_status_events:
  "\<exists>payload.
     api_status pf set_iter ips clk req st =
       (Status payload, check_peers_lifecycle set_iter clk st) \<and>
     sp_events payload =
       map (client_safe_event pf (\<not> is_local_admin req \<and> \<not> file_pool st) (remote_addr req))
         (EVENT_LOG (check_peers_lifecycle set_iter clk st))"
  by (simp add: api_status_def Let_def sweep_result(2))

lemma client_safe_event_masked:
  assumes "should_mask" "ev_ip e \<noteq> Some viewer" "ev_filename e = Some name" "name \<noteq> []"
  shows "client_safe_event pf should_mask viewer e =
     (event_copy e)\<lparr>v_msg := replace (ev_msg e) name (get_masked_name pf name),
                     v_filename := None\<rparr>"
  using assms by (simp add: client_safe_event_def Let_def event_copy_def)

lemma client_safe_event_plain:
  assumes "\<not> (should_mask \<and> ev_ip e \<noteq> Some viewer \<and> truthy (ev_filename e))"
  shows "client_safe_event pf should_mask viewer e = event_copy e"
  using assms by (auto simp: client_safe_event_def Let_def)

lemma client_safe_event_stripped:
  "v_filename (client_safe_event pf should_mask viewer e) = None \<longleftrightarrow>
     should_mask \<and> ev_ip e \<noteq> Some viewer \<and> truthy (ev_filename e)"
proof (cases "should_mask \<and> ev_ip e \<noteq> Some viewer \<and> truthy (ev_filename e)")
  case True
  then obtain name where "ev_filename e = Some name" "name \<noteq> []"
    by (cases "ev_filename e") auto
  with True show ?thesis by (simp add: client_safe_event_masked)
next
  case False
  then show ?thesis by (simp add: client_safe_event_plain event_copy_def)
qed

text \<open>
  Claim C2. The events of a status response are the events of the log, each passed
  through the privacy filter. For every event the filter masks the filename (the
  filename inside the message is replaced by its masked form and the \<open>filename\<close> field is
  taken out) if and only if the viewer is not the admin, file pool mode is off, the event
  carries a filename (its \<open>filename\<close> field holds a non-empty name, the test
  \<open>event.get('filename')\<close>) and the actor of the event is not the viewer's address. So an
  event of the viewer's own is never masked to that viewer, and nothing is masked for the
  admin or in file pool mode: the event is then passed on as it is in the log.
\<close>

theorem status_masks_foreign_filenames:
  "(\<exists>payload.
      api_status pf set_iter ips clk req st =
        (Status payload, check_peers_lifecycle set_iter clk st) \<and>
      sp_events payload =
        map (client_safe_event pf (\<not> is_local_admin req \<and> \<not> file_pool st) (remote_addr req))
          (EVENT_LOG (check_peers_lifecycle set_iter clk st))) \<and>
   (v_filename (client_safe_event pf (\<not> is_admin \<and> \<not> pool) viewer e) = None \<longleftrightarrow>
      \<not> is_admin \<and> \<not> pool \<and> truthy (ev_filename e) \<and> ev_ip e \<noteq> Some viewer) \<and>
   (\<not> is_admin \<and> \<not> pool \<and> ev_filename e = Some name \<and> name \<noteq> [] \<and> ev_ip e \<noteq> Some viewer \<longrightarrow>
      client_safe_event pf (\<not> is_admin \<and> \<not> pool) viewer e =
        (event_copy e)\<lparr>v_msg := replace (ev_msg e) name (get_masked_name pf name),
                        v_filename := None\<rparr>) \<and>
   (\<not> (\<not> is_admin \<and> \<not> pool \<and> truthy (ev_filename e) \<and> ev_ip e \<noteq> Some viewer) \<longrightarrow>
      client_safe_event pf (\<not> is_admin \<and> \<not> pool) viewer e = event_copy e \<and>
      v_msg (event_copy e) = ev_msg e \<and> v_filename (event_copy e) = Some (ev_filename e)) \<and>
   (ev_ip e = Some viewer \<or> is_admin \<or> pool \<longrightarrow>
      client_safe_event pf (\<not> is_admin \<and> \<not> pool) viewer e = event_copy e)"
proof (intro conjI impI)
  show "\<exists>payload.
      api_status pf set_iter ips clk req st =
        (Status payload, check_peers_lifecycle set_iter clk st) \<and>
      sp_events payload =
        map (client_safe_event pf (\<not> is_local_admin req \<and> \<not> file_pool st) (remote_addr req))
          (EVENT_LOG (check_peers_lifecycle set_iter clk st))"
    by (rule api_status_events)
  show "v_filename (client_safe_event pf (\<not> is_admin \<and> \<not> pool) viewer e) = None \<longleftrightarrow>
      \<not> is_admin \<and> \<not> pool \<and> truthy (ev_filename e) \<and> ev_ip e \<noteq> Some viewer"
    by (auto simp: client_safe_event_stripped)
next
  assume "\<not> is_admin \<and> \<not> pool \<and> ev_filename e = Some name \<and> name \<noteq> [] \<and>
          ev_ip e \<noteq> Some viewer"
  then show "client_safe_event pf (\<not> is_admin \<and> \<not> pool) viewer e =
        (event_copy e)\<lparr>v_msg := replace (ev_msg e) name (get_masked_name pf name),
                        v_filename := None\<rparr>"
    by (intro client_safe_event_masked) simp_all
next
  assume "\<not> (\<not> is_admin \<and> \<not> pool \<and> truthy (ev_filename e) \<and> ev_ip e \<noteq> Some viewer)"
  then show "client_safe_event pf (\<not> is_admin \<and> \<not> pool) viewer e = event_copy e"
    by (intro client_safe_event_plain) auto
  show "v_msg (event_copy e) = ev_msg e" "v_filename (event_copy e) = Some (ev_filename e)"
    by (simp_all add: event_copy_def)
next
  assume "ev_ip e = Some viewer \<or> is_admin \<or> pool"
  then show "client_safe_event pf (\<not> is_admin \<and> \<not> pool) viewer e = event_copy e"
    by (intro client_safe_event_plain) auto
qed

lemma replace_report:
  "replace (msg_uploaded @ u ''report.pdf'') (u ''report.pdf'') (u ''re***.pdf'') =
     msg_uploaded @ u ''re***.pdf''"
  by (simp add: replace.simps msg_uploaded_def u_def startswith_def)

theorem status_masks_foreign_filenames_witness:
  "ev_filename report_event = Some (u ''report.pdf'') \<and> u ''report.pdf'' \<noteq> [] \<and>
   ev_ip report_event \<noteq> Some (u ''10.0.0.7'') \<and> ev_ip report_event = Some (u ''10.0.0.5'') \<and>
   client_safe_event Posix (\<not> False \<and> \<not> False) (u ''10.0.0.7'') report_event =
     (event_copy report_event)\<lparr>v_msg := msg_uploaded @ u ''re***.pdf'', v_filename := None\<rparr> \<and>
   client_safe_event Posix (\<not> False \<and> \<not> False) (u ''10.0.0.5'') report_event =
     event_copy report_event \<and>
   client_safe_event Posix (\<not> False \<and> \<not> True) (u ''10.0.0.7'') report_event =
     event_copy report_event \<and>
   client_safe_event Posix (\<not> True \<and> \<not> False) (u ''127.0.0.1'') report_event =
     event_copy report_event"
proof -
  have f: "ev_filename report_event = Some (u ''report.pdf'')"
    and m: "ev_msg report_event = msg_uploaded @ u ''report.pdf''"
    and i: "ev_ip report_event = Some (u ''10.0.0.5'')"
    by (simp_all add: report_event_def mk_event_def)
  have ne: "u ''report.pdf'' \<noteq> []" by (simp add: u_def)
  have other: "ev_ip report_event \<noteq> Some (u ''10.0.0.7'')" by (simp add: i u_def)
  have masked: "get_masked_name Posix (u ''report.pdf'') = u ''re***.pdf''"
    by code_simp
  from status_masks_foreign_filenames
    [where e = report_event and viewer = "u ''10.0.0.7''" and is_admin = False
       and pool = False and name = "u ''report.pdf''" and pf = Posix]
    f ne other
  have a: "client_safe_event Posix (\<not> False \<and> \<not> False) (u ''10.0.0.7'') report_event =
     (event_copy report_event)\<lparr>v_msg := msg_uploaded @ u ''re***.pdf'', v_filename := None\<rparr>"
    by (simp add: m masked replace_report)
  from status_masks_foreign_filenames
    [where e = report_event and viewer = "u ''10.0.0.5''" and is_admin = False and pool = False]
    i
  have b: "client_safe_event Posix (\<not> False \<and> \<not> False) (u ''10.0.0.5'') report_event =
     event_copy report_event"
    by simp
  from status_masks_foreign_filenames
    [where e = report_event and viewer = "u ''10.0.0.7''" and is_admin = False and pool = True]
  have c: "client_safe_event Posix (\<not> False \<and> \<not> True) (u ''10.0.0.7'') report_event =
     event_copy report_event"
    by simp
  from status_masks_foreign_filenames
    [where e = report_event and viewer = "u ''127.0.0.1''" and is_admin = True and pool = False]
  have d: "client_safe_event Posix (\<not> True \<and> \<not> False) (u ''127.0.0.1'') report_event =
     event_copy report_event"
    by simp
  show ?thesis using f ne other i a b c d by (intro conjI)
qed


section \<open>What recording an activity does to the registry\<close>

lemma record_activity_other_fields:
  "locked (record_activity clk req ip action device_type st) = locked st"
  "file_pool (record_activity clk req ip action device_type st) = file_pool st"
  "current_port (record_activity clk req ip action device_type st) = current_port st"
  "EVENT_LOG (record_activity clk req ip action device_type st) = EVENT_LOG st"
  "LAST_ONLINE_IPS (record_activity clk req ip action device_type st) = LAST_ONLINE_IPS st"
  by (simp_all add: record_activity_def Let_def split: option.split)

lemma record_activity_other_peer:
  "k \<noteq> ip \<Longrightarrow>
   DAList.lookup (ACTIVE_PEERS (record_activity clk req ip action device_type st)) k =
     DAList.lookup (ACTIVE_PEERS st) k"
  by (simp add: record_activity_def Let_def split: option.split)

lemma record_activity_new:
  "DAList.lookup (ACTIVE_PEERS st) ip = None \<Longrightarrow>
   DAList.lookup (ACTIVE_PEERS (record_activity clk req ip action device_type st)) ip =
     Some \<lparr>last_seen = now clk, peer_action = u ''idle'', action_time = now clk,
           peer_device_type = device_of req device_type\<rparr>"
  by (simp add: record_activity_def Let_def)

lemma get_device_type_nonempty: "get_device_type ua \<noteq> []"
  by (simp add: get_device_type_def u_def)

lemma device_of_nonempty: "device_of req device_type \<noteq> []"
  by (simp add: device_of_def get_device_type_nonempty split: option.split)

lemma record_activity_seen:
  assumes "DAList.lookup (ACTIVE_PEERS st) ip = Some p"
  shows "DAList.lookup (ACTIVE_PEERS (record_activity clk req ip action device_type st)) ip =
     Some (if truthy action
           then \<lparr>last_seen = now clk, peer_action = the action,
                 action_time = now clk + seconds 3,
                 peer_device_type = device_of req device_type\<rparr>
           else \<lparr>last_seen = now clk, peer_action = peer_action p,
                 action_time = action_time p,
                 peer_device_type = device_of req device_type\<rparr>)"
proof -
  have "device_of req device_type \<noteq> []" by (rule device_of_nonempty)
  then show ?thesis
    using assms
    by (cases action) (simp_all add: record_activity_def Let_def)
qed

text \<open>
  Claim C6, as amended. For every call \<open>record_activity(ip, action, device_type)\<close>: if
  the address is not in the registry, a peer is inserted for it with \<open>last_seen\<close> the
  current time, action \<open>idle\<close> and expiry the current time, whatever \<open>action\<close> is; if
  the address is in the registry, its \<open>last_seen\<close> is set to the current time
  unconditionally, and when an action is given its action is set to that value and its
  expiry to the current time plus 3 seconds, and both are kept when none is given. No other
  peer and no event changes.
\<close>

theorem record_activity_effect:
  "seconds 3 = 3000000 \<and>
   (DAList.lookup (ACTIVE_PEERS st) ip = None \<longrightarrow>
      DAList.lookup (ACTIVE_PEERS (record_activity clk req ip action device_type st)) ip =
        Some \<lparr>last_seen = now clk, peer_action = u ''idle'', action_time = now clk,
              peer_device_type = device_of req device_type\<rparr>) \<and>
   (DAList.lookup (ACTIVE_PEERS st) ip = Some p \<and> action = Some a \<and> a \<noteq> [] \<longrightarrow>
      DAList.lookup (ACTIVE_PEERS (record_activity clk req ip action device_type st)) ip =
        Some \<lparr>last_seen = now clk, peer_action = a, action_time = now clk + seconds 3,
              peer_device_type = device_of req device_type\<rparr>) \<and>
   (DAList.lookup (ACTIVE_PEERS st) ip = Some p \<and> \<not> truthy action \<longrightarrow>
      DAList.lookup (ACTIVE_PEERS (record_activity clk req ip action device_type st)) ip =
        Some \<lparr>last_seen = now clk, peer_action = peer_action p, action_time = action_time p,
              peer_device_type = device_of req device_type\<rparr>) \<and>
   (k \<noteq> ip \<longrightarrow>
      DAList.lookup (ACTIVE_PEERS (record_activity clk req ip action device_type st)) k =
        DAList.lookup (ACTIVE_PEERS st) k) \<and>
   EVENT_LOG (record_activity clk req ip action device_type st) = EVENT_LOG st"
proof (intro conjI impI)
  show "seconds 3 = 3000000" by (simp add: seconds_def)
  show "EVENT_LOG (record_activity clk req ip action device_type st) = EVENT_LOG st"
    by (rule record_activity_other_fields)
next
  assume "DAList.lookup (ACTIVE_PEERS st) ip = None"
  then show "DAList.lookup (ACTIVE_PEERS (record_activity clk req ip action device_type st)) ip =
        Some \<lparr>last_seen = now clk, peer_action = u ''idle'', action_time = now clk,
              peer_device_type = device_of req device_type\<rparr>"
    by (rule record_activity_new)
next
  assume "DAList.lookup (ACTIVE_PEERS st) ip = Some p \<and> action = Some a \<and> a \<noteq> []"
  then show "DAList.lookup (ACTIVE_PEERS (record_activity clk req ip action device_type st)) ip =
        Some \<lparr>last_seen = now clk, peer_action = a, action_time = now clk + seconds 3,
              peer_device_type = device_of req device_type\<rparr>"
    by (simp add: record_activity_seen)
next
  assume "DAList.lookup (ACTIVE_PEERS st) ip = Some p \<and> \<not> truthy action"
  then show "DAList.lookup (ACTIVE_PEERS (record_activity clk req ip action device_type st)) ip =
        Some \<lparr>last_seen = now clk, peer_action = peer_action p, action_time = action_time p,
              peer_device_type = device_of req device_type\<rparr>"
    by (simp add: record_activity_seen)
next
  assume "k \<noteq> ip"
  then show "DAList.lookup (ACTIVE_PEERS (record_activity clk req ip action device_type st)) k =
        DAList.lookup (ACTIVE_PEERS st) k"
    by (rule record_activity_other_peer)
qed

lemma desktop_agent: "get_device_type (user_agent peer_request) = u ''desktop''"
  by code_simp

text \<open>
  Claim C6 as it is written fails for a new address: the call with action \<open>upload\<close>
  inserts the peer with action \<open>idle\<close> and expiry the current time.
\<close>

theorem record_activity_new_peer_counterexample:
  "DAList.lookup (ACTIVE_PEERS (initial_state 8000)) (u ''10.0.0.5'') = None \<and>
   DAList.lookup
     (ACTIVE_PEERS
        (record_activity noon peer_request (u ''10.0.0.5'') (Some (u ''upload'')) None
           (initial_state 8000)))
     (u ''10.0.0.5'') =
     Some \<lparr>last_seen = now noon, peer_action = u ''idle'', action_time = now noon,
           peer_device_type = u ''desktop''\<rparr> \<and>
   u ''idle'' \<noteq> u ''upload'' \<and> now noon \<noteq> now noon + seconds 3"
  by (simp add: record_activity_def Let_def initial_state_def device_of_def desktop_agent)
     (simp add: u_def seconds_def)

theorem record_activity_effect_witness:
  "DAList.lookup (ACTIVE_PEERS (initial_state 8000)) (u ''10.0.0.5'') = None \<and>
   DAList.lookup (ACTIVE_PEERS stale_state) (u ''10.0.0.5'') = Some stale_peer \<and>
   u ''upload'' \<noteq> [] \<and> \<not> truthy None \<and> u ''10.0.0.7'' \<noteq> u ''10.0.0.5'' \<and>
   DAList.lookup
     (ACTIVE_PEERS (record_activity noon peer_request (u ''10.0.0.5'') (Some (u ''upload'')) None
        (initial_state 8000))) (u ''10.0.0.5'') =
     Some \<lparr>last_seen = now noon, peer_action = u ''idle'', action_time = now noon,
           peer_device_type = u ''desktop''\<rparr> \<and>
   DAList.lookup
     (ACTIVE_PEERS (record_activity noon peer_request (u ''10.0.0.5'') (Some (u ''upload'')) None
        stale_state)) (u ''10.0.0.5'') =
     Some \<lparr>last_seen = now noon, peer_action = u ''upload'', action_time = now noon + 3000000,
           peer_device_type = u ''desktop''\<rparr> \<and>
   DAList.lookup
     (ACTIVE_PEERS (record_activity noon peer_request (u ''10.0.0.5'') None None stale_state))
     (u ''10.0.0.5'') =
     Some \<lparr>last_seen = now noon, peer_action = u ''idle'', action_time = 0,
           peer_device_type = u ''desktop''\<rparr> \<and>
   DAList.lookup
     (ACTIVE_PEERS (record_activity noon peer_request (u ''10.0.0.5'') (Some (u ''upload'')) None
        stale_state)) (u ''10.0.0.7'') = None"
proof -
  have new: "DAList.lookup (ACTIVE_PEERS (initial_state 8000)) (u ''10.0.0.5'') = None"
    by (simp add: initial_state_def)
  have seen: "DAList.lookup (ACTIVE_PEERS stale_state) (u ''10.0.0.5'') = Some stale_peer"
    by (simp add: stale_state_def)
  have ne: "u ''upload'' \<noteq> []" and other: "u ''10.0.0.7'' \<noteq> u ''10.0.0.5''"
    by (simp_all add: u_def)
  have dev: "device_of peer_request None = u ''desktop''"
    by (simp add: device_of_def desktop_agent)
  have none7: "DAList.lookup (ACTIVE_PEERS stale_state) (u ''10.0.0.7'') = None"
    using other by (simp add: stale_state_def)
  note t1 = record_activity_effect [where st = "initial_state 8000" and ip = "u ''10.0.0.5''"
      and clk = noon and req = peer_request and action = "Some (u ''upload'')"
      and device_type = None]
  note t2 = record_activity_effect [where st = stale_state and ip = "u ''10.0.0.5''"
      and clk = noon and req = peer_request and action = "Some (u ''upload'')"
      and device_type = None and p = stale_peer and a = "u ''upload''"
      and k = "u ''10.0.0.7''"]
  note t3 = record_activity_effect [where st = stale_state and ip = "u ''10.0.0.5''"
      and clk = noon and req = peer_request and action = None
      and device_type = None and p = stale_peer]
  from t1 new have a: "DAList.lookup
     (ACTIVE_PEERS (record_activity noon peer_request (u ''10.0.0.5'') (Some (u ''upload'')) None
        (initial_state 8000))) (u ''10.0.0.5'') =
     Some \<lparr>last_seen = now noon, peer_action = u ''idle'', action_time = now noon,
           peer_device_type = u ''desktop''\<rparr>"
    by (simp add: dev)
  from t2 seen ne have b: "DAList.lookup
     (ACTIVE_PEERS (record_activity noon peer_request (u ''10.0.0.5'') (Some (u ''upload'')) None
        stale_state)) (u ''10.0.0.5'') =
     Some \<lparr>last_seen = now noon, peer_action = u ''upload'', action_time = now noon + 3000000,
           peer_device_type = u ''desktop''\<rparr>"
    by (simp add: dev)
  from t3 seen have c: "DAList.lookup
     (ACTIVE_PEERS (record_activity noon peer_request (u ''10.0.0.5'') None None stale_state))
     (u ''10.0.0.5'') =
     Some \<lparr>last_seen = now noon, peer_action = u ''idle'', action_time = 0,
           peer_device_type = u ''desktop''\<rparr>"
    by (simp add: dev stale_peer_def)
  from t2 other none7 have d: "DAList.lookup
     (ACTIVE_PEERS (record_activity noon peer_request (u ''10.0.0.5'') (Some (u ''upload'')) None
        stale_state)) (u ''10.0.0.7'') = None"
    by simp
  show ?thesis using new seen ne other a b c d by simp
qed


section \<open>The gate of locked mode\<close>

lemma global_intercept_denies:
  "locked st \<Longrightarrow> \<not> is_local_admin req \<Longrightarrow> endpoint req \<noteq> Some (u ''static'') \<Longrightarrow>
   global_intercept clk req st = Inl (HTTPException 403 (u ''Maintenance Mode''))"
  by (simp add: global_intercept_def)

lemma global_intercept_admin:
  "is_local_admin req \<Longrightarrow> global_intercept clk req st = Inr st"
  by (auto simp: global_intercept_def is_local_admin_def Let_def)

text \<open>
  Claim C1. For every request: if \<open>locked\<close> is true, the origin is not the admin address
  and the request is not for a static asset, the request is answered with the
  maintenance-mode error 403 whatever the handler of its route is, and the whole state,
  peer registry and event log included, and the filesystem stay as they were. A request of
  the admin goes to its handler with the state untouched.
\<close>

theorem locked_gate_denies_before_handler:
  "(locked st \<and> \<not> is_local_admin req \<and> endpoint req \<noteq> Some (u ''static'') \<longrightarrow>
      full_dispatch_request clk req view_function st fs =
        (Error (HTTPException 403 (u ''Maintenance Mode'')), st, fs)) \<and>
   (is_local_admin req \<longrightarrow>
      full_dispatch_request clk req view_function st fs = view_function st fs)"
proof (intro conjI impI)
  assume "locked st \<and> \<not> is_local_admin req \<and> endpoint req \<noteq> Some (u ''static'')"
  then have "global_intercept clk req st = Inl (HTTPException 403 (u ''Maintenance Mode''))"
    by (simp add: global_intercept_denies)
  then show "full_dispatch_request clk req view_function st fs =
        (Error (HTTPException 403 (u ''Maintenance Mode'')), st, fs)"
    by (simp add: full_dispatch_request_def)
next
  assume "is_local_admin req"
  then have "global_intercept clk req st = Inr st"
    by (rule global_intercept_admin)
  then show "full_dispatch_request clk req view_function st fs = view_function st fs"
    by (simp add: full_dispatch_request_def)
qed

theorem locked_gate_denies_before_handler_witness:
  "locked locked_state \<and> \<not> is_local_admin peer_request \<and>
   endpoint peer_request \<noteq> Some (u ''static'') \<and> is_local_admin admin_request \<and>
   path admin_request = path peer_request \<and> endpoint admin_request = endpoint peer_request \<and>
   full_dispatch_request noon peer_request
     (upload_file DEFAULT_CONFIG small_os noon peer_request one_file) locked_state empty_fs =
     (Error (HTTPException 403 (u ''Maintenance Mode'')), locked_state, empty_fs) \<and>
   full_dispatch_request noon admin_request
     (upload_file DEFAULT_CONFIG small_os noon admin_request one_file) locked_state empty_fs =
     upload_file DEFAULT_CONFIG small_os noon admin_request one_file locked_state empty_fs"
proof -
  have l: "locked locked_state" by (simp add: locked_state_def)
  have p: "\<not> is_local_admin peer_request"
    by (simp add: is_local_admin_def peer_request_def u_def)
  have e: "endpoint peer_request \<noteq> Some (u ''static'')"
    by (simp add: peer_request_def u_def)
  have a: "is_local_admin admin_request"
    by (simp add: is_local_admin_def admin_request_def)
  have same: "path admin_request = path peer_request"
    "endpoint admin_request = endpoint peer_request"
    by (simp_all add: admin_request_def peer_request_def)
  from locked_gate_denies_before_handler [of locked_state peer_request noon
      "upload_file DEFAULT_CONFIG small_os noon peer_request one_file" empty_fs] l p e
  have d: "full_dispatch_request noon peer_request
     (upload_file DEFAULT_CONFIG small_os noon peer_request one_file) locked_state empty_fs =
     (Error (HTTPException 403 (u ''Maintenance Mode'')), locked_state, empty_fs)"
    by simp
  from locked_gate_denies_before_handler [of locked_state admin_request noon
      "upload_file DEFAULT_CONFIG small_os noon admin_request one_file" empty_fs] a
  have g: "full_dispatch_request noon admin_request
     (upload_file DEFAULT_CONFIG small_os noon admin_request one_file) locked_state empty_fs =
     upload_file DEFAULT_CONFIG small_os noon admin_request one_file locked_state empty_fs"
    by simp
  show ?thesis using l p e a same d g by (intro conjI)
qed


section \<open>Evaluating strings and the small filesystem\<close>

lemma u_eq_iff [simp]: "u a = u b \<longleftrightarrow> a = b"
proof -
  have "inj (of_char :: char \<Rightarrow> nat)" by (rule injI) simp
  then show ?thesis by (simp add: u_def inj_map_eq_map)
qed

lemma u_Nil_iff [simp]: "u a = [] \<longleftrightarrow> a = []" "[] = u a \<longleftrightarrow> a = []"
  by (auto simp: u_def)

lemma peer_request_simps:
  "remote_addr peer_request = u ''10.0.0.5''" "\<not> is_local_admin peer_request"
  "user_agent peer_request = u ''mozilla/5.0 (x11; linux x86_64)''"
  by (simp_all add: peer_request_def is_local_admin_def)

lemma admin_request_simps:
  "remote_addr admin_request = u ''127.0.0.1''" "is_local_admin admin_request"
  by (simp_all add: admin_request_def is_local_admin_def)

lemma small_os_simps:
  "os_join small_os = posix_join" "os_basename small_os = posix_basename"
  "os_dirname small_os = posix_dirname" "os_exists small_os = small_exists"
  "os_isfile small_os = small_isfile" "os_isdir small_os = small_isdir"
  "os_getsize small_os = small_getsize" "os_getmtime small_os = small_getmtime"
  "os_listdir small_os = small_listdir" "os_makedirs small_os = small_makedirs"
  "os_remove small_os = small_remove" "os_rmdir small_os = small_rmdir"
  "file_save small_os = small_save" "flask_send small_os = small_send"
  by (simp_all add: small_os_def)

lemma config_simps:
  "RELEASE_DIR DEFAULT_CONFIG = u ''release''" "RECEIVED_DIR DEFAULT_CONFIG = u ''received''"
  by (simp_all add: DEFAULT_CONFIG_def)


section \<open>Events of failed file operations\<close>

lemma download_rejects_traversal:
  "contains (u ''..'') filename \<or> startswith filename (u ''/'') \<Longrightarrow>
   download_file cfg os clk req filename st fs = (not_found, st, fs)"
  by (simp add: download_file_def)

lemma download_logs_before_lookup:
  assumes "\<not> contains (u ''..'') filename" "\<not> startswith filename (u ''/'')"
  shows "EVENT_LOG (fst (snd (download_file cfg os clk req filename st fs))) =
     appendleft MAX_EVENTS
       (mk_event clk (u ''download'') (msg_downloaded @ last (split_chr 47 filename))
          (Some (if remote_addr req \<noteq> u ''127.0.0.1'' then remote_addr req else u ''Server''))
          (Some (last (split_chr 47 filename))))
       (EVENT_LOG st)"
  using assms
  by (simp add: download_file_def Let_def add_event_def record_activity_other_fields
        split: list.split)

lemma nosuch_checks:
  "\<not> contains (u ''..'') (u ''nosuch.txt'')" "\<not> startswith (u ''nosuch.txt'') (u ''/'')"
  "\<not> startswith (u ''nosuch.txt'') (u ''__release__/'')"
  "last (split_chr 47 (u ''nosuch.txt'')) = u ''nosuch.txt''"
  "posix_join (u ''release'') (u ''nosuch.txt'') = u ''release/nosuch.txt''"
  by (simp_all add: u_def startswith_def posix_join_def)

lemma nosuch_absent: "\<not> small_exists empty_fs (u ''release/nosuch.txt'')"
  by (simp add: small_exists_def small_isfile_def small_isdir_def empty_fs_def)

lemma failed_delete_changes_nothing:
  "fst (delete_file cfg os clk req target_type target_path st fs) \<noteq> Success \<Longrightarrow>
   fst (snd (delete_file cfg os clk req target_type target_path st fs)) = st"
  by (auto simp: delete_file_def internal_server_error_def split: option.splits sum.splits
        prod.splits if_splits)

text \<open>
  Claim C9 says that a download or delete that fails leaves the event log unchanged.
  \<open>delete_file\<close> does (lemma \<open>failed_delete_changes_nothing\<close>); \<open>download_file\<close>
  calls \<open>add_event\<close> before it looks for the file. Here a peer asks for a file that
  does not exist: the answer is 404 and the log has gained a \<open>download\<close> event.
\<close>

theorem failed_download_is_logged:
  "download_file DEFAULT_CONFIG small_os noon peer_request (u ''nosuch.txt'')
     (initial_state 8000) empty_fs =
   (Error (HTTPException 404 (u ''Not Found'')),
    add_event noon (u ''download'') (msg_downloaded @ u ''nosuch.txt'') (Some (u ''10.0.0.5''))
      (Some (u ''nosuch.txt''))
      (record_activity noon peer_request (u ''10.0.0.5'') (Some (u ''download'')) None
         (initial_state 8000)),
    empty_fs) \<and>
   EVENT_LOG (initial_state 8000) = [] \<and>
   EVENT_LOG (fst (snd (download_file DEFAULT_CONFIG small_os noon peer_request (u ''nosuch.txt'')
     (initial_state 8000) empty_fs))) =
   [mk_event noon (u ''download'') (msg_downloaded @ u ''nosuch.txt'') (Some (u ''10.0.0.5''))
      (Some (u ''nosuch.txt''))]"
proof -
  have file_pool: "\<not> file_pool (initial_state 8000)" by (simp add: initial_state_def)
  have d: "download_file DEFAULT_CONFIG small_os noon peer_request (u ''nosuch.txt'')
     (initial_state 8000) empty_fs =
   (Error (HTTPException 404 (u ''Not Found'')),
    add_event noon (u ''download'') (msg_downloaded @ u ''nosuch.txt'') (Some (u ''10.0.0.5''))
      (Some (u ''nosuch.txt''))
      (record_activity noon peer_request (u ''10.0.0.5'') (Some (u ''download'')) None
         (initial_state 8000)),
    empty_fs)"
    by (simp add: download_file_def Let_def nosuch_checks peer_request_simps config_simps
          small_os_simps nosuch_absent not_found_def add_event_def
          record_activity_other_fields file_pool)
  have e: "EVENT_LOG (initial_state 8000) = []" by (simp add: initial_state_def)
  show ?thesis
    unfolding d
    by (simp add: e add_event_def record_activity_other_fields appendleft_def MAX_EVENTS_def)
qed


section \<open>Names with parent-directory segments\<close>

lemma delete_file_joins_unchecked:
  assumes "is_local_admin req" "target_type = Some (u ''received'')"
    "\<not> startswith p (u ''__release__/'')"
    "os_join os (RECEIVED_DIR cfg) p \<noteq> []" "os_exists os fs (os_join os (RECEIVED_DIR cfg) p)"
    "remove_and_tidy os target_type (os_join os (RECEIVED_DIR cfg) p) fs = Inr fs'"
  shows "\<exists>st'. delete_file cfg os clk req target_type (Some p) st fs = (Success, st', fs')"
  using assms by (simp add: delete_file_def delete_target_def Let_def)

lemma evil_paths:
  "contains (u ''..'') (u ''../evil.txt'')"
  "posix_join (u ''received'') (u ''10.0.0.5'') = u ''received/10.0.0.5''"
  "posix_join (u ''received/10.0.0.5'') (u ''../evil.txt'') = u ''received/10.0.0.5/../evil.txt''"
  by (simp_all add: posix_join_def startswith_def u_def)

lemma evil_makedirs:
  "\<not> small_exists empty_fs (u ''received/10.0.0.5'')"
  "small_makedirs empty_fs (u ''received/10.0.0.5'') =
    Inr \<lparr>fs_dirs = [u ''release'', u ''received'', u ''received/10.0.0.5''], fs_files = [],
         fs_ticks = 1\<rparr>"
  by (simp_all add: small_makedirs_def small_exists_def small_isfile_def small_isdir_def
        empty_fs_def)

lemma evil_save:
  "\<not> small_exists \<lparr>fs_dirs = [u ''release'', u ''received'', u ''received/10.0.0.5''],
     fs_files = [], fs_ticks = 1\<rparr> (u ''received/10.0.0.5/../evil.txt'')"
  "small_save \<lparr>fs_dirs = [u ''release'', u ''received'', u ''received/10.0.0.5''],
     fs_files = [], fs_ticks = 1\<rparr> (u ''received/10.0.0.5/../evil.txt'') [37, 80, 68, 70] =
   Inr \<lparr>fs_dirs = [u ''release'', u ''received'', u ''received/10.0.0.5''],
        fs_files = [(u ''received/10.0.0.5/../evil.txt'', [37, 80, 68, 70], 1)],
        fs_ticks = 2\<rparr>"
  by (simp_all add: small_save_def small_exists_def small_isfile_def small_isdir_def)

lemma evil_save_files:
  "save_files small_os noon (u ''received/10.0.0.5'') evil_file
     \<lparr>fs_dirs = [u ''release'', u ''received'', u ''received/10.0.0.5''],
      fs_files = [], fs_ticks = 1\<rparr> 0 [] =
   Inr (\<lparr>fs_dirs = [u ''release'', u ''received'', u ''received/10.0.0.5''],
         fs_files = [(u ''received/10.0.0.5/../evil.txt'', [37, 80, 68, 70], 1)],
         fs_ticks = 2\<rparr>,
        1, u ''../evil.txt'')"
  by (simp add: evil_file_def small_os_simps evil_paths evil_save)

text \<open>
  Claim C7 says that a request naming a file is rejected before any filesystem operation
  when the name has a \<open>..\<close> segment or is absolute. \<open>download_file\<close> does so (lemma
  \<open>download_rejects_traversal\<close>); \<open>upload_file\<close> and \<open>delete_file\<close> join the name to
  their directory and go on. Here a peer uploads a file named \<open>../evil.txt\<close>: it is
  saved under that name, which lies outside the peer's own directory, and the request
  succeeds.
\<close>

theorem upload_accepts_parent_directory_name:
  "contains (u ''..'') (u ''../evil.txt'') \<and>
   upload_file DEFAULT_CONFIG small_os noon peer_request evil_file (initial_state 8000) empty_fs =
   (Uploaded 1,
    add_event noon (u ''upload'') (msg_uploaded @ u ''../evil.txt'') (Some (u ''10.0.0.5''))
      (Some (u ''../evil.txt''))
      (record_activity noon peer_request (u ''10.0.0.5'') (Some (u ''upload'')) None
         (initial_state 8000)),
    \<lparr>fs_dirs = [u ''release'', u ''received'', u ''received/10.0.0.5''],
     fs_files = [(u ''received/10.0.0.5/../evil.txt'', [37, 80, 68, 70], 1)],
     fs_ticks = 2\<rparr>)"
  by (simp add: upload_file_def Let_def peer_request_simps config_simps small_os_simps
        evil_paths evil_makedirs evil_save_files upload_event_def)


section \<open>The event of an upload\<close>



















section \<open>The admin's listing of received files\<close>


lemma sort_reverse_set [simp]: "set (sort_reverse key xs) = set xs"
  by (simp add: sort_reverse_def)

lemma sort_reverse_length [simp]: "length (sort_reverse key xs) = length xs"
  by (simp add: sort_reverse_def)

lemma sort_reverse_Nil_iff [simp]: "sort_reverse key xs = [] \<longleftrightarrow> xs = []"
  using sort_reverse_length [of key xs] by (metis length_0_conv)

lemma collect_Inr:
  "collect f xs = Inr ys \<Longrightarrow>
   ys = List.map_filter (\<lambda>x. case f x of Inl e \<Rightarrow> None | Inr r \<Rightarrow> r) xs"
proof (induction xs arbitrary: ys)
  case Nil
  then show ?case by (simp add: List.map_filter_simps)
next
  case (Cons x xs)
  from Cons.prems obtain r rs where fx: "f x = Inr r" and rest: "collect f xs = Inr rs"
    and ys: "ys = (case r of None \<Rightarrow> rs | Some y \<Rightarrow> y # rs)"
    by (auto split: sum.splits)
  from Cons.IH [OF rest] show ?case
    by (cases r) (simp_all add: ys fx List.map_filter_simps)
qed









lemma listing_paths:
  "posix_join (u ''release'') (u ''notes.txt'') = u ''release/notes.txt''"
  "posix_join (u ''received'') (u ''10.0.0.5'') = u ''received/10.0.0.5''"
  "posix_join (u ''received/10.0.0.5'') (u ''a.txt'') = u ''received/10.0.0.5/a.txt''"
  "posix_join (u ''received/10.0.0.5'') (u ''b.txt'') = u ''received/10.0.0.5/b.txt''"
  "u ''__release__/'' @ u ''notes.txt'' = u ''__release__/notes.txt''"
  "u ''10.0.0.5'' @ u ''/'' @ u ''a.txt'' = u ''10.0.0.5/a.txt''"
  "u ''10.0.0.5'' @ u ''/'' @ u ''b.txt'' = u ''10.0.0.5/b.txt''"
  by (simp_all add: posix_join_def startswith_def u_def)










text \<open>
  Why the folder named \<open>Server\<close> is excepted: the folders of the received directory are
  entered after the published files, under their own names. Here that directory has a
  folder \<open>Server\<close> with one file, and in file pool mode the key \<open>Server\<close> of the admin's
  listing holds that folder's file, not the published \<open>notes.txt\<close>.
\<close>

lemma server_folder_takes_the_key:
  "list_received_files DEFAULT_CONFIG small_os admin_request pool_state server_folder_fs =
     Received_all (u ''admin'')
       (DAList.update (u ''Server'') (Peer_files [entry_s]) DAList.empty)
       (u ''127.0.0.1'') True \<and>
   server_files DEFAULT_CONFIG small_os server_folder_fs = Inr [entry_notes]"
proof -
  have paths:
    "posix_join (u ''release'') (u ''notes.txt'') = u ''release/notes.txt''"
    "posix_join (u ''received'') (u ''Server'') = u ''received/Server''"
    "posix_join (u ''received/Server'') (u ''s.txt'') = u ''received/Server/s.txt''"
    "u ''Server'' @ u ''/'' @ u ''s.txt'' = u ''Server/s.txt''"
    by (simp_all add: posix_join_def startswith_def u_def)
  have dirs:
    "small_listdir server_folder_fs (u ''release'') = Inr [u ''notes.txt'']"
    "small_listdir server_folder_fs (u ''received'') = Inr [u ''Server'']"
    "small_listdir server_folder_fs (u ''received/Server'') = Inr [u ''s.txt'']"
    by (simp_all add: small_listdir_def small_isdir_def server_folder_fs_def entry_in_def
          List.map_filter_simps startswith_def u_def)
  have stat:
    "small_exists server_folder_fs (u ''release'')"
    "small_exists server_folder_fs (u ''received'')"
    "small_isdir server_folder_fs (u ''received/Server'')"
    "small_isfile server_folder_fs (u ''release/notes.txt'')"
    "small_isfile server_folder_fs (u ''received/Server/s.txt'')"
    "small_getsize server_folder_fs (u ''release/notes.txt'') = Inr 4"
    "small_getsize server_folder_fs (u ''received/Server/s.txt'') = Inr 1"
    "small_getmtime server_folder_fs (u ''received/Server/s.txt'') = Inr 3"
    by (simp_all add: small_exists_def small_isfile_def small_isdir_def small_getsize_def
          small_getmtime_def server_folder_fs_def)
  have released: "server_files DEFAULT_CONFIG small_os server_folder_fs = Inr [entry_notes]"
    by (simp add: server_files_def server_entry_of_def Let_def config_simps small_os_simps
          listing_paths paths dirs stat entry_notes_def)
  have "collect (peer_entry_of small_os server_folder_fs (u ''Server'') (u ''received/Server''))
          [u ''s.txt''] = Inr [entry_s]"
    by (simp add: peer_entry_of_def Let_def small_os_simps paths stat entry_s_def)
  then have folder: "folder_files DEFAULT_CONFIG small_os server_folder_fs (u ''Server'') =
      Inr (Some [entry_s])"
    by (simp add: folder_files_def Let_def config_simps small_os_simps paths dirs stat
          sort_reverse_def)
  have "received_structure DEFAULT_CONFIG small_os server_folder_fs True =
      Inr (DAList.update (u ''Server'') (Peer_files [entry_s]) DAList.empty)"
    by (simp add: received_structure_def config_simps small_os_simps dirs stat released folder)
  then show ?thesis
    by (simp add: list_received_files_def Let_def admin_request_simps pool_state_def
          initial_state_def released)
qed




section \<open>A new peer that uploads\<close>

lemma upload_file_peers:
  "ACTIVE_PEERS (fst (snd (upload_file cfg os clk req uploaded_files st fs))) =
     ACTIVE_PEERS (if \<not> is_local_admin req
                   then record_activity clk req (remote_addr req) (Some (u ''upload'')) None st
                   else st)"
  by (simp add: upload_file_def Let_def upload_event_def add_event_def
        split: sum.splits prod.splits)

text \<open>
  The scenario of the specification: a peer that the registry has not seen uploads a file.
  The gate records the address first, so the handler's call finds it, and the peer ends
  with action \<open>upload\<close> and an expiry 3 seconds ahead, whatever the filesystem does.
\<close>

lemma new_peer_upload_sets_action:
  assumes "\<not> locked st" "\<not> is_local_admin req" "startswith (path req) (u ''/upload'')"
  shows "\<exists>p. DAList.lookup
           (ACTIVE_PEERS (fst (snd (full_dispatch_request clk req
              (upload_file cfg os clk req uploaded_files) st fs))))
           (remote_addr req) = Some p \<and>
         peer_action p = u ''upload'' \<and> action_time p = now clk + seconds 3 \<and>
         last_seen p = now clk"
proof -
  let ?ip = "remote_addr req"
  let ?st0 = "record_activity clk req ?ip None None st"
  have gate: "global_intercept clk req st = Inr ?st0"
    using assms by (simp add: global_intercept_def is_local_admin_def Let_def)
  obtain p0 where p0: "DAList.lookup (ACTIVE_PEERS ?st0) ?ip = Some p0"
    by (cases "DAList.lookup (ACTIVE_PEERS st) ?ip")
       (simp_all add: record_activity_new record_activity_seen)
  have "DAList.lookup
          (ACTIVE_PEERS (record_activity clk req ?ip (Some (u ''upload'')) None ?st0)) ?ip =
        Some \<lparr>last_seen = now clk, peer_action = u ''upload'',
              action_time = now clk + seconds 3, peer_device_type = device_of req None\<rparr>"
    using record_activity_seen [OF p0, of clk req "Some (u ''upload'')" None] by simp
  then show ?thesis
    using assms(2) by (simp add: full_dispatch_request_def gate upload_file_peers)
qed

end
